theory Spec2Isabelle
  imports Main "HOL-Library.Char_ord" "HOL-Library.List_Lexorder" "HOL-Library.Multiset"
begin

section \<open>Python values, exceptions and library functions\<close>

text \<open>
  The script \<^verbatim>\<open>bitunix_to_tradezella.py\<close> is embedded function by function. Strings are
  byte strings (\<^typ>\<open>string\<close>), compared lexicographically as Python compares \<^verbatim>\<open>str\<close>.
  Every exception the script can raise is a value of \<open>exn\<close>, and a function that can
  raise returns \<open>exn + 'a\<close> with \<open>Inl\<close> for the exception.
\<close>

datatype exn =
    FileNotFoundError | KeyError | ValueError | TypeError | AttributeError
  | JSONDecodeError | HTTPError | ConnectionError | InvalidHeader | UnboundLocalError

text \<open>
  The \<^verbatim>\<open>except\<close> clauses of the script name \<^verbatim>\<open>requests.exceptions.HTTPError\<close>,
  \<^verbatim>\<open>ValueError\<close> and \<^verbatim>\<open>Exception\<close>. \<^verbatim>\<open>JSONDecodeError\<close> and the
  \<^verbatim>\<open>InvalidHeader\<close> of requests are subclasses of \<^verbatim>\<open>ValueError\<close>.
\<close>

fun is_ValueError :: "exn \<Rightarrow> bool" where
  "is_ValueError ValueError = True"
| "is_ValueError JSONDecodeError = True"
| "is_ValueError InvalidHeader = True"
| "is_ValueError _ = False"

text \<open>
  What \<^verbatim>\<open>json.load\<close> and \<^verbatim>\<open>resp.json()\<close> return. A JSON object is an association list
  read with \<open>map_of\<close>. Numbers with a fraction or an exponent (Python floats) are not
  part of the model.
\<close>

datatype jval =
    JNull | JBool bool | JInt int | JStr string
  | JArr "jval list" | JObj "(string \<times> jval) list"

type_synonym dict = "(string \<times> jval) list"

definition dict_get :: "dict \<Rightarrow> string \<Rightarrow> jval \<Rightarrow> jval" where
  \<comment> \<open>\<^verbatim>\<open>d.get(k, default)\<close>\<close>
  "dict_get d k dflt = (case map_of d k of None \<Rightarrow> dflt | Some v \<Rightarrow> v)"

fun truthy :: "jval \<Rightarrow> bool" where
  \<comment> \<open>Python's truth value of a parsed JSON value\<close>
  "truthy JNull = False"
| "truthy (JBool b) = b"
| "truthy (JInt n) = (n \<noteq> 0)"
| "truthy (JStr s) = (s \<noteq> [])"
| "truthy (JArr xs) = (xs \<noteq> [])"
| "truthy (JObj kvs) = (kvs \<noteq> [])"

text \<open>
  The library functions the script calls and that are not re-implemented here are the
  fields of \<open>pylib\<close>; every theorem holds for all of them.
  \<^item> \<open>sha256_hexdigest m\<close> is \<^verbatim>\<open>hashlib.sha256(m.encode('utf-8')).hexdigest()\<close>;
  \<^item> \<open>json_compact b\<close> is \<^verbatim>\<open>json.dumps(json.loads(b), separators=(',', ':'))\<close>, \<open>None\<close>
    when \<^verbatim>\<open>json.loads\<close> raises;
  \<^item> \<open>int_of_str s\<close> is \<^verbatim>\<open>int(s)\<close> for a \<^verbatim>\<open>str\<close>, \<open>None\<close> when it raises \<^verbatim>\<open>ValueError\<close>;
  \<^item> \<open>isoformat_ms s\<close> is \<^verbatim>\<open>int(datetime.fromisoformat(s).timestamp() * 1000)\<close>, \<open>None\<close>
    when \<^verbatim>\<open>fromisoformat\<close> raises \<^verbatim>\<open>ValueError\<close>;
  \<^item> \<open>str_upper s\<close> is \<^verbatim>\<open>s.upper()\<close> for a \<^verbatim>\<open>str\<close> with characters outside ASCII;
  \<^item> \<open>py_repr v\<close> is \<^verbatim>\<open>str(v)\<close> for a list or a dict.
\<close>

record pylib =
  sha256_hexdigest :: "string \<Rightarrow> string"
  json_compact :: "string \<Rightarrow> string option"
  int_of_str :: "string \<Rightarrow> int option"
  isoformat_ms :: "string \<Rightarrow> int option"
  str_upper :: "string \<Rightarrow> string"
  py_repr :: "jval \<Rightarrow> string"

subsection \<open>Decimal and hexadecimal rendering\<close>

definition digit_char :: "int \<Rightarrow> char" where
  "digit_char d = ''0123456789abcdef'' ! nat d"

function str_digits :: "int \<Rightarrow> string" where
  \<comment> \<open>the decimal digits of a number that is not negative\<close>
  "str_digits n =
     (if n < 10 then [digit_char n] else str_digits (n div 10) @ [digit_char (n mod 10)])"
  by pat_completeness auto
termination
  by (relation "measure nat") auto

declare str_digits.simps [simp del]

definition str_int :: "int \<Rightarrow> string" where
  \<comment> \<open>\<^verbatim>\<open>str(i)\<close> for an \<^verbatim>\<open>int\<close>\<close>
  "str_int i = (if i < 0 then CHR ''-'' # str_digits (- i) else str_digits i)"

section \<open>The signer: \<^verbatim>\<open>BitunixClient.sign_request\<close>\<close>

record client =
  api_key :: string
  api_secret :: string

definition new_client :: "string \<Rightarrow> string \<Rightarrow> exn + client" where
  \<comment> \<open>\<^verbatim>\<open>BitunixClient.__init__\<close>\<close>
  "new_client k s =
     (if k = [] \<or> s = [] then Inl ValueError else Inr \<lparr>api_key = k, api_secret = s\<rparr>)"

text \<open>
  A query-parameter dict is the list of its items in insertion order; its keys are
  pairwise distinct. The values are the scalars the script formats with an f-string.
\<close>

datatype scalar = SInt int | SStr string

fun format_scalar :: "scalar \<Rightarrow> string" where
  "format_scalar (SInt i) = str_int i"
| "format_scalar (SStr s) = s"

fun py_lt_scalar :: "scalar \<Rightarrow> scalar \<Rightarrow> exn + bool" where
  "py_lt_scalar (SInt a) (SInt b) = Inr (a < b)"
| "py_lt_scalar (SStr a) (SStr b) = Inr (a < b)"
| "py_lt_scalar _ _ = Inl TypeError"

fun py_lt_item :: "string \<times> scalar \<Rightarrow> string \<times> scalar \<Rightarrow> exn + bool" where
  \<comment> \<open>\<^verbatim>\<open>(k1, v1) < (k2, v2)\<close> on tuples: the first components that differ decide\<close>
  "py_lt_item (k1, v1) (k2, v2) = (if k1 = k2 then py_lt_scalar v1 v2 else Inr (k1 < k2))"

text \<open>
  \<^verbatim>\<open>sorted(query_params.items())\<close>: a stable sort that only asks \<^verbatim>\<open>y < x\<close>, written as
  an insertion sort. A comparison that raises aborts the sort.
\<close>

fun py_insert :: "string \<times> scalar \<Rightarrow> (string \<times> scalar) list \<Rightarrow> exn + (string \<times> scalar) list" where
  "py_insert x [] = Inr [x]"
| "py_insert x (y # ys) =
     (case py_lt_item y x of
        Inl e \<Rightarrow> Inl e
      | Inr True \<Rightarrow> (case py_insert x ys of Inl e \<Rightarrow> Inl e | Inr r \<Rightarrow> Inr (y # r))
      | Inr False \<Rightarrow> Inr (x # y # ys))"

fun py_sorted :: "(string \<times> scalar) list \<Rightarrow> exn + (string \<times> scalar) list" where
  "py_sorted [] = Inr []"
| "py_sorted (x # xs) = (case py_sorted xs of Inl e \<Rightarrow> Inl e | Inr r \<Rightarrow> py_insert x r)"

definition query_string :: "(string \<times> scalar) list option \<Rightarrow> exn + string" where
  \<comment> \<open>line 93; \<open>None\<close> and the empty dict are both falsy\<close>
  "query_string query_params =
     (case query_params of
        None \<Rightarrow> Inr []
      | Some ps \<Rightarrow>
          if ps = [] then Inr []
          else (case py_sorted ps of
                  Inl e \<Rightarrow> Inl e
                | Inr items \<Rightarrow> Inr (concat (map (\<lambda>(k, v). k @ format_scalar v) items))))"

definition compact_body :: "pylib \<Rightarrow> string option \<Rightarrow> exn + string" where
  \<comment> \<open>line 95; \<open>None\<close> and the empty string are both falsy\<close>
  "compact_body L body =
     (case body of
        None \<Rightarrow> Inr []
      | Some b \<Rightarrow>
          if b = [] then Inr []
          else (case json_compact L b of None \<Rightarrow> Inl JSONDecodeError | Some c \<Rightarrow> Inr c))"

definition sign_request ::
  "pylib \<Rightarrow> client \<Rightarrow> string \<Rightarrow> string \<Rightarrow> (string \<times> scalar) list option \<Rightarrow> string option
     \<Rightarrow> exn + string" where
  "sign_request L self nonce timestamp query_params body =
     (case query_string query_params of
        Inl e \<Rightarrow> Inl e
      | Inr qs \<Rightarrow>
          (case compact_body L body of
             Inl e \<Rightarrow> Inl e
           | Inr b \<Rightarrow>
               let message = nonce @ timestamp @ api_key self @ qs @ b;
                   digest = sha256_hexdigest L message;
                   sign_input = digest @ api_secret self
               in Inr (sha256_hexdigest L sign_input)))"


section \<open>The protocol client: \<^verbatim>\<open>BitunixClient.fetch_trades\<close>\<close>

definition hex_byte :: "nat \<Rightarrow> string" where
  "hex_byte b = [digit_char (int b div 16), digit_char (int b mod 16)]"

definition token_hex :: "nat \<Rightarrow> (nat \<Rightarrow> nat) \<Rightarrow> string" where
  \<comment> \<open>\<^verbatim>\<open>secrets.token_hex(n)\<close>: \<open>n\<close> bytes of the operating system's random source, in hex;
      \<open>rnd i\<close> is the \<open>i\<close>-th byte this call reads\<close>
  "token_hex n rnd = concat (map (\<lambda>i. hex_byte (rnd i mod 256)) [0..<n])"

definition generate_nonce :: "string \<Rightarrow> string" where
  \<comment> \<open>\<^verbatim>\<open>_generate_nonce\<close>: \<^verbatim>\<open>uuid.uuid4().hex\<close>, given here as its argument; no caller\<close>
  "generate_nonce uuid4_hex = uuid4_hex"

text \<open>
  One pass of the \<^verbatim>\<open>while\<close> loop talks to the outside once: it reads the clock, draws
  random bytes and sends one GET. \<open>session.get\<close> either raises or returns a response;
  \<open>status_ok\<close> says that \<^verbatim>\<open>raise_for_status()\<close> does not raise, \<open>json\<close> is what
  \<^verbatim>\<open>resp.json()\<close> returns, \<open>None\<close> when it raises.
\<close>

record response =
  status_ok :: bool
  json :: "jval option"

datatype outcome = Raises exn | Responds response

record exchange =
  clock :: int
  entropy :: "nat \<Rightarrow> nat"
  reply :: outcome

record request =
  headers :: "(string \<times> string) list"
  params :: "(string \<times> scalar) list"

definition limit :: nat where
  "limit = 100"

definition py_int :: "pylib \<Rightarrow> jval \<Rightarrow> exn + int" where
  \<comment> \<open>\<^verbatim>\<open>int(v)\<close>\<close>
  "py_int L v =
     (case v of
        JInt n \<Rightarrow> Inr n
      | JBool b \<Rightarrow> Inr (if b then 1 else 0)
      | JStr s \<Rightarrow> (case int_of_str L s of None \<Rightarrow> Inl ValueError | Some n \<Rightarrow> Inr n)
      | _ \<Rightarrow> Inl TypeError)"

definition ctime_of :: "pylib \<Rightarrow> dict \<Rightarrow> exn + int" where
  \<comment> \<open>\<^verbatim>\<open>int(tr.get('ctime', 0))\<close>\<close>
  "ctime_of L tr = py_int L (dict_get tr ''ctime'' (JInt 0))"

definition py_gt_int :: "int \<Rightarrow> jval \<Rightarrow> exn + bool" where
  \<comment> \<open>\<^verbatim>\<open>ctime > start_time\<close> for an \<^verbatim>\<open>int\<close> on the left: an \<^verbatim>\<open>int\<close> or a \<^verbatim>\<open>bool\<close> (0 or 1) on
      the right compares, anything else raises\<close>
  "py_gt_int c v =
     (case v of
        JInt n \<Rightarrow> Inr (n < c)
      | JBool b \<Rightarrow> Inr ((if b then 1 else 0) < c)
      | _ \<Rightarrow> Inl TypeError)"

text \<open>
  Lines 141 to 144: the \<^verbatim>\<open>for\<close> loop over a page. \<open>trades\<close> is the list the loop appends
  to; an entry that raises stops the loop and leaves what was appended before it.
  An entry that is not a dict has no \<^verbatim>\<open>get\<close>. \<open>start_time\<close> is whatever the caller
  passed: the annotation \<^verbatim>\<open>int\<close> is not enforced.
\<close>

fun process_page :: "pylib \<Rightarrow> jval \<Rightarrow> jval list \<Rightarrow> dict list \<Rightarrow> exn option \<times> dict list" where
  "process_page L start_time [] trades = (None, trades)"
| "process_page L start_time (tr # page) trades =
     (case tr of
        JObj d \<Rightarrow>
          (case ctime_of L d of
             Inl e \<Rightarrow> (Some e, trades)
           | Inr ctime \<Rightarrow>
               (case py_gt_int ctime start_time of
                  Inl e \<Rightarrow> (Some e, trades)
                | Inr later \<Rightarrow>
                    process_page L start_time page (if later then trades @ [d] else trades)))
      | _ \<Rightarrow> (Some AttributeError, trades))"

definition contains_error :: "jval \<Rightarrow> exn + bool" where
  \<comment> \<open>\<^verbatim>\<open>'error' in response_json\<close>: a key of a dict, an element of a list, a substring of
      a string; other values are not iterable\<close>
  "contains_error v =
     (case v of
        JObj d \<Rightarrow> Inr (''error'' \<in> set (map fst d))
      | JArr xs \<Rightarrow> Inr (JStr ''error'' \<in> set xs)
      | JStr s \<Rightarrow> Inr (list_ex (\<lambda>i. take 5 (drop i s) = ''error'') [0..<length s])
      | _ \<Rightarrow> Inl TypeError)"

definition trade_list :: "jval \<Rightarrow> exn + jval" where
  \<comment> \<open>\<^verbatim>\<open>response_json.get('data', {}).get('tradeList', [])\<close>\<close>
  "trade_list v =
     (case v of
        JObj d \<Rightarrow>
          (case dict_get d ''data'' (JObj []) of
             JObj dd \<Rightarrow> Inr (dict_get dd ''tradeList'' (JArr []))
           | _ \<Rightarrow> Inl AttributeError)
      | _ \<Rightarrow> Inl AttributeError)"

definition iterate :: "jval \<Rightarrow> exn + jval list" where
  \<comment> \<open>what \<^verbatim>\<open>for tr in page\<close> and \<^verbatim>\<open>len(page)\<close> see: the elements of a list, the keys of
      a dict, the characters of a string\<close>
  "iterate page =
     (case page of
        JArr xs \<Rightarrow> Inr xs
      | JObj d \<Rightarrow> Inr (map JStr (remdups (map fst d)))
      | JStr s \<Rightarrow> Inr (map (\<lambda>c. JStr [c]) s)
      | _ \<Rightarrow> Inl TypeError)"

text \<open>
  The body of the \<^verbatim>\<open>try\<close> block, lines 131 to 147: the loop goes on (\<open>Next\<close>, with the
  new \<open>trades\<close> and \<open>skip\<close>), leaves by \<^verbatim>\<open>break\<close> (\<open>Stop\<close>) or raises (\<open>Fail\<close>).
\<close>

datatype step = Next "dict list" nat | Stop "dict list" | Fail exn "dict list"

definition try_body :: "pylib \<Rightarrow> jval \<Rightarrow> dict list \<Rightarrow> nat \<Rightarrow> outcome \<Rightarrow> step" where
  "try_body L start_time trades skip r =
     (case r of
        Raises e \<Rightarrow> Fail e trades
      | Responds resp \<Rightarrow>
          if \<not> status_ok resp then Fail HTTPError trades
          else (case json resp of
             None \<Rightarrow> Fail JSONDecodeError trades
           | Some response_json \<Rightarrow>
               (case contains_error response_json of
                  Inl e \<Rightarrow> Fail e trades
                | Inr True \<Rightarrow> Stop trades
                | Inr False \<Rightarrow>
                    (case trade_list response_json of
                       Inl e \<Rightarrow> Fail e trades
                     | Inr page \<Rightarrow>
                         if \<not> truthy page then Stop trades
                         else (case iterate page of
                            Inl e \<Rightarrow> Fail e trades
                          | Inr entries \<Rightarrow>
                              (case process_page L start_time entries trades of
                                 (Some e, trades') \<Rightarrow> Fail e trades'
                               | (None, trades') \<Rightarrow>
                                   if length entries < limit then Stop trades'
                                   else Next trades' (skip + length entries)))))))"

text \<open>
  The three \<^verbatim>\<open>except\<close> clauses. The first two log \<^verbatim>\<open>resp.text\<close>, which raises
  \<^verbatim>\<open>UnboundLocalError\<close> when no pass of the loop has assigned \<^verbatim>\<open>resp\<close> yet; the third
  catches everything else. \<open>None\<close> is \<^verbatim>\<open>break\<close>.
\<close>

definition handle :: "exn \<Rightarrow> bool \<Rightarrow> exn option" where
  "handle e resp_bound =
     (if e = HTTPError \<or> is_ValueError e
      then (if resp_bound then None else Some UnboundLocalError)
      else None)"

definition build_request :: "client \<Rightarrow> string \<Rightarrow> string \<Rightarrow> string \<Rightarrow> (string \<times> scalar) list \<Rightarrow> request" where
  "build_request self now_ms nonce signature ps =
     \<lparr>headers = [(''api-key'', api_key self), (''timestamp'', now_ms), (''nonce'', nonce),
                  (''sign'', signature), (''Content-Type'', ''application/json'')],
      params = ps\<rparr>"

definition as_scalar :: "pylib \<Rightarrow> jval \<Rightarrow> scalar" where
  \<comment> \<open>a value as an item of the query-parameter dict: an \<^verbatim>\<open>int\<close> or a \<^verbatim>\<open>str\<close> as it is,
      any other value as the text the f-string of \<^verbatim>\<open>sign_request\<close> gives for it\<close>
  "as_scalar L v =
     (case v of
        JInt n \<Rightarrow> SInt n
      | JStr s \<Rightarrow> SStr s
      | JBool b \<Rightarrow> SStr (if b then ''True'' else ''False'')
      | JNull \<Rightarrow> SStr ''None''
      | _ \<Rightarrow> SStr (py_repr L v))"

text \<open>
  The \<^verbatim>\<open>while True\<close> loop, by recursion on the exchanges still to come. The loop has no
  bound of its own: when the exchanges run out before it has left, the answer is
  \<open>None\<close>. Otherwise the answer holds the requests sent and either the list returned or
  the exception that escaped.
\<close>

fun fetch_loop ::
  "pylib \<Rightarrow> client \<Rightarrow> jval \<Rightarrow> dict list \<Rightarrow> nat \<Rightarrow> bool \<Rightarrow> request list \<Rightarrow> exchange list
     \<Rightarrow> (request list \<times> (exn + dict list)) option" where
  "fetch_loop L self start_time trades skip resp_bound sent [] = None"
| "fetch_loop L self start_time trades skip resp_bound sent (x # xs) =
     (let now_ms = str_int (clock x);
          nonce = token_hex 8 (entropy x);
          ps = [(''startTime'', as_scalar L start_time), (''skip'', SInt (int skip)),
                (''limit'', SInt (int limit))]
      in case sign_request L self nonce now_ms (Some ps) None of
           Inl e \<Rightarrow> Some (sent, Inl e)
         | Inr signature \<Rightarrow>
             let sent' = sent @ [build_request self now_ms nonce signature ps];
                 bound' = (resp_bound \<or> (case reply x of Responds _ \<Rightarrow> True | Raises _ \<Rightarrow> False))
             in (case try_body L start_time trades skip (reply x) of
                   Next trades' skip' \<Rightarrow> fetch_loop L self start_time trades' skip' bound' sent' xs
                 | Stop trades' \<Rightarrow> Some (sent', Inr trades')
                 | Fail e trades' \<Rightarrow>
                     (case handle e bound' of
                        None \<Rightarrow> Some (sent', Inr trades')
                      | Some e' \<Rightarrow> Some (sent', Inl e'))))"

definition fetch_trades_any ::
  "pylib \<Rightarrow> client \<Rightarrow> jval \<Rightarrow> exchange list \<Rightarrow> (request list \<times> (exn + dict list)) option" where
  \<comment> \<open>\<^verbatim>\<open>fetch_trades\<close>, for whatever value is passed as \<^verbatim>\<open>start_time\<close>\<close>
  "fetch_trades_any L self start_time xs = fetch_loop L self start_time [] 0 False [] xs"

definition fetch_trades ::
  "pylib \<Rightarrow> client \<Rightarrow> int \<Rightarrow> exchange list \<Rightarrow> (request list \<times> (exn + dict list)) option" where
  \<comment> \<open>\<^verbatim>\<open>fetch_trades\<close> as it is declared, \<^verbatim>\<open>start_time: int\<close>\<close>
  "fetch_trades L self start_time xs = fetch_trades_any L self (JInt start_time) xs"

section \<open>The checkpoint store: \<^verbatim>\<open>load_state\<close> and \<^verbatim>\<open>save_state\<close>\<close>

text \<open>
  The files of the working directory, by name. A file holds JSON that \<^verbatim>\<open>json.load\<close>
  parses, a table written by \<^verbatim>\<open>csv.DictWriter\<close>, or bytes that are neither. Reading and
  writing a file does not fail otherwise.
\<close>

record row =
  Date :: string
  Time :: string
  Symbol :: jval
  Buy_Sell :: string
  Quantity :: jval
  Price :: jval
  Spread :: string
  Expiration :: string
  Strike :: string
  Call_Put :: string
  Commission :: jval
  Fees :: string

datatype content = Json jval | Csv "string list" "row list" | Unparsable

type_synonym files = "string \<Rightarrow> content option"

definition STATE_FILE :: string where
  "STATE_FILE = ''last_export_state.json''"

definition CREDENTIALS_FILE :: string where
  "CREDENTIALS_FILE = ''credentials.json''"

definition FIELDNAMES :: "string list" where
  "FIELDNAMES = [''Date'', ''Time'', ''Symbol'', ''Buy/Sell'', ''Quantity'', ''Price'',
                 ''Spread'', ''Expiration'', ''Strike'', ''Call/Put'', ''Commission'', ''Fees'']"

definition json_load :: "content \<Rightarrow> exn + jval" where
  "json_load c = (case c of Json v \<Rightarrow> Inr v | _ \<Rightarrow> Inl JSONDecodeError)"

definition get_attr :: "jval \<Rightarrow> string \<Rightarrow> jval \<Rightarrow> exn + jval" where
  \<comment> \<open>\<^verbatim>\<open>v.get(k, default)\<close> on a parsed value: only a dict has \<^verbatim>\<open>get\<close>\<close>
  "get_attr v k dflt = (case v of JObj d \<Rightarrow> Inr (dict_get d k dflt) | _ \<Rightarrow> Inl AttributeError)"

definition load_credentials :: "files \<Rightarrow> exn + jval \<times> jval" where
  "load_credentials fs =
     (case fs CREDENTIALS_FILE of
        None \<Rightarrow> Inl FileNotFoundError
      | Some c \<Rightarrow>
          (case json_load c of
             Inl e \<Rightarrow> Inl e
           | Inr cfg \<Rightarrow>
               (case get_attr cfg ''api_key'' JNull of
                  Inl e \<Rightarrow> Inl e
                | Inr key \<Rightarrow>
                    (case get_attr cfg ''secret_key'' JNull of
                       Inl e \<Rightarrow> Inl e
                     | Inr secret \<Rightarrow>
                         if \<not> truthy key \<or> \<not> truthy secret then Inl KeyError
                         else Inr (key, secret)))))"

fun replace_Z :: "string \<Rightarrow> string" where
  \<comment> \<open>\<^verbatim>\<open>s.replace('Z', '+00:00')\<close>\<close>
  "replace_Z [] = []"
| "replace_Z (c # cs) = (if c = CHR ''Z'' then ''+00:00'' @ replace_Z cs else c # replace_Z cs)"

definition parse_start_time :: "pylib \<Rightarrow> jval \<Rightarrow> exn + int" where
  \<comment> \<open>lines 175 to 183, for a truthy \<^verbatim>\<open>start_time\<close>: only a \<^verbatim>\<open>str\<close> has \<^verbatim>\<open>replace\<close>;
      the \<^verbatim>\<open>ValueError\<close> of \<^verbatim>\<open>fromisoformat\<close> is logged and raised again\<close>
  "parse_start_time L start_time =
     (case start_time of
        JStr s \<Rightarrow> (case isoformat_ms L (replace_Z s) of None \<Rightarrow> Inl ValueError | Some ms \<Rightarrow> Inr ms)
      | _ \<Rightarrow> Inl AttributeError)"

definition load_state :: "pylib \<Rightarrow> files \<Rightarrow> exn + jval" where
  "load_state L fs =
     (case fs STATE_FILE of
        Some c \<Rightarrow>
          (case json_load c of
             Inl e \<Rightarrow> Inl e
           | Inr data \<Rightarrow> get_attr data ''last_time'' (JInt 0))
      | None \<Rightarrow>
          (case fs CREDENTIALS_FILE of
             Some c \<Rightarrow>
               (case json_load c of
                  Inl e \<Rightarrow> Inl e
                | Inr cfg \<Rightarrow>
                    (case get_attr cfg ''start_time'' JNull of
                       Inl e \<Rightarrow> Inl e
                     | Inr start_time \<Rightarrow>
                         if truthy start_time
                         then (case parse_start_time L start_time of
                                 Inl e \<Rightarrow> Inl e
                               | Inr ms \<Rightarrow> Inr (JInt ms))
                         else Inr (JInt 0)))
           | None \<Rightarrow> Inr (JInt 0)))"

definition save_state :: "int \<Rightarrow> files \<Rightarrow> files" where
  \<comment> \<open>\<^verbatim>\<open>json.dump({'last_time': last_time}, f)\<close>, as \<^verbatim>\<open>json.load\<close> reads it back\<close>
  "save_state last_time fs = fs(STATE_FILE \<mapsto> Json (JObj [(''last_time'', JInt last_time)]))"

section \<open>The normalizer: \<^verbatim>\<open>transform_trades\<close>\<close>

text \<open>
  \<^verbatim>\<open>datetime.fromtimestamp(ctime / 1000, tz=timezone.utc)\<close>. The fields the script reads
  are those of the whole second \<open>ctime div 1000\<close>: in the range of \<^verbatim>\<open>datetime\<close> the
  quotient's rounding error is far below a millisecond. The date is computed from the
  day number in the proleptic Gregorian calendar; a year outside 1 to 9999 raises
  (\<^verbatim>\<open>ValueError\<close>, or for larger magnitudes \<^verbatim>\<open>OverflowError\<close> or \<^verbatim>\<open>OSError\<close>, which no
  caller tells apart).
\<close>

record datetime =
  year :: int
  month :: int
  day :: int
  hour :: int
  minute :: int
  second :: int

definition civil_from_days :: "int \<Rightarrow> int \<times> int \<times> int" where
  "civil_from_days days =
     (let z = days + 719468;
          era = z div 146097;
          doe = z mod 146097;
          yoe = (doe - doe div 1460 + doe div 36524 - doe div 146096) div 365;
          doy = doe - (365 * yoe + yoe div 4 - yoe div 100);
          mp = (5 * doy + 2) div 153;
          d = doy - (153 * mp + 2) div 5 + 1;
          m = (if mp < 10 then mp + 3 else mp - 9);
          y = yoe + era * 400 + (if m \<le> 2 then 1 else 0)
      in (y, m, d))"

definition fromtimestamp_utc :: "int \<Rightarrow> exn + datetime" where
  "fromtimestamp_utc ctime =
     (let secs = ctime div 1000;
          sod = secs mod 86400
      in case civil_from_days (secs div 86400) of
           (y, m, d) \<Rightarrow>
             if y < 1 \<or> 9999 < y then Inl ValueError
             else Inr \<lparr>year = y, month = m, day = d,
                       hour = sod div 3600, minute = (sod mod 3600) div 60, second = sod mod 60\<rparr>)"

definition pad2 :: "int \<Rightarrow> string" where
  \<comment> \<open>the two-digit fields of \<^verbatim>\<open>strftime\<close>\<close>
  "pad2 n = (if n < 10 then CHR ''0'' # str_int n else str_int n)"

definition date_str :: "datetime \<Rightarrow> string" where
  "date_str dt = str_int (month dt) @ ''/'' @ str_int (day dt) @ ''/'' @ str_int (year dt mod 100)"

definition time_str :: "datetime \<Rightarrow> string" where
  \<comment> \<open>\<^verbatim>\<open>dt.strftime("%H:%M:%S")\<close>\<close>
  "time_str dt = pad2 (hour dt) @ '':'' @ pad2 (minute dt) @ '':'' @ pad2 (second dt)"

definition upper_char :: "char \<Rightarrow> char" where
  "upper_char c =
     (if CHR ''a'' \<le> c \<and> c \<le> CHR ''z'' then char_of (of_char c - (32 :: nat)) else c)"

definition is_ascii :: "char \<Rightarrow> bool" where
  "is_ascii c = (of_char c < (128 :: nat))"

definition py_upper :: "pylib \<Rightarrow> jval \<Rightarrow> exn + string" where
  \<comment> \<open>\<^verbatim>\<open>v.upper()\<close>: only a \<^verbatim>\<open>str\<close> has \<^verbatim>\<open>upper\<close>. On an ASCII string it maps a to z to
      A to Z; a string with other characters is left to the library\<close>
  "py_upper L v =
     (case v of
        JStr s \<Rightarrow> Inr (if list_all is_ascii s then map upper_char s else str_upper L s)
      | _ \<Rightarrow> Inl AttributeError)"

definition row_of :: "pylib \<Rightarrow> dict \<Rightarrow> exn + row" where
  \<comment> \<open>the body of the \<^verbatim>\<open>for\<close> loop, lines 202 to 221\<close>
  "row_of L tr =
     (case ctime_of L tr of
        Inl e \<Rightarrow> Inl e
      | Inr ctime \<Rightarrow>
          (case fromtimestamp_utc ctime of
             Inl e \<Rightarrow> Inl e
           | Inr dt \<Rightarrow>
               (case py_upper L (dict_get tr ''side'' (JStr [])) of
                  Inl e \<Rightarrow> Inl e
                | Inr side \<Rightarrow>
                    Inr \<lparr>Date = date_str dt, Time = time_str dt,
                         Symbol = dict_get tr ''symbol'' (JStr []),
                         Buy_Sell = side,
                         Quantity = dict_get tr ''qty'' (JStr []),
                         Price = dict_get tr ''price'' (JStr []),
                         Spread = ''Crypto'', Expiration = [], Strike = [], Call_Put = [],
                         Commission = dict_get tr ''fee'' (JStr []),
                         Fees = []\<rparr>)))"

fun sequence :: "(exn + 'a) list \<Rightarrow> exn + 'a list" where
  \<comment> \<open>evaluate from left to right; the first exception ends it\<close>
  "sequence [] = Inr []"
| "sequence (r # rs) =
     (case r of
        Inl e \<Rightarrow> Inl e
      | Inr v \<Rightarrow> (case sequence rs of Inl e \<Rightarrow> Inl e | Inr vs \<Rightarrow> Inr (v # vs)))"

definition sorted_by_ctime :: "pylib \<Rightarrow> dict list \<Rightarrow> exn + dict list" where
  \<comment> \<open>\<^verbatim>\<open>sorted(trades, key=lambda x: int(x.get('ctime', 0)))\<close>: the keys of all elements are
      computed first, then the elements are sorted by key, stably\<close>
  "sorted_by_ctime L trades =
     (case sequence (map (ctime_of L) trades) of
        Inl e \<Rightarrow> Inl e
      | Inr keys \<Rightarrow> Inr (map snd (sort_key fst (zip keys trades))))"

definition transform_trades :: "pylib \<Rightarrow> dict list \<Rightarrow> exn + row list" where
  "transform_trades L trades =
     (case sorted_by_ctime L trades of
        Inl e \<Rightarrow> Inl e
      | Inr ordered \<Rightarrow> sequence (map (row_of L) ordered))"

section \<open>The orchestrator: \<^verbatim>\<open>main\<close>\<close>

datatype run_outcome = No_New_Trades | Exported | Failed exn | Ill_Typed

record invocation =
  arg_output :: "string option"
  started :: string

definition output_filename :: "invocation \<Rightarrow> string" where
  \<comment> \<open>line 248; \<open>started\<close> is \<^verbatim>\<open>datetime.now().strftime('%Y%m%d_%H%M%S')\<close>\<close>
  "output_filename args =
     (case arg_output args of
        Some name \<Rightarrow> if name \<noteq> [] then name else ''new_trades_'' @ started args @ ''.csv''
      | None \<Rightarrow> ''new_trades_'' @ started args @ ''.csv'')"

definition dict_index :: "dict \<Rightarrow> string \<Rightarrow> exn + jval" where
  \<comment> \<open>\<^verbatim>\<open>d[k]\<close>\<close>
  "dict_index d k = (case map_of d k of None \<Rightarrow> Inl KeyError | Some v \<Rightarrow> Inr v)"

definition py_max :: "int list \<Rightarrow> exn + int" where
  "py_max ns = (case ns of [] \<Rightarrow> Inl ValueError | n # rest \<Rightarrow> Inr (fold max rest n))"

definition latest_ctime :: "pylib \<Rightarrow> dict list \<Rightarrow> exn + int" where
  \<comment> \<open>\<^verbatim>\<open>max(int(t['ctime']) for t in new_trades)\<close>\<close>
  "latest_ctime L new_trades =
     (case sequence (map (\<lambda>t. case dict_index t ''ctime'' of
                                 Inl e \<Rightarrow> Inl e | Inr v \<Rightarrow> py_int L v) new_trades) of
        Inl e \<Rightarrow> Inl e
      | Inr ns \<Rightarrow> py_max ns)"

text \<open>
  Lines 239 to 257, inside the \<^verbatim>\<open>try\<close> of \<^verbatim>\<open>main\<close>: every exception ends the run and
  is logged, with the files as they are at that moment. What \<open>load_state\<close> returned is
  passed to \<^verbatim>\<open>fetch_trades\<close> as it is. Opening and writing the output file and the state
  file are taken to succeed.
\<close>

definition main_body ::
  "pylib \<Rightarrow> client \<Rightarrow> invocation \<Rightarrow> exchange list \<Rightarrow> files \<Rightarrow> (files \<times> run_outcome) option" where
  "main_body L self args xs fs =
     (case load_state L fs of
        Inl e \<Rightarrow> Some (fs, Failed e)
      | Inr last_time \<Rightarrow>
          (case fetch_trades_any L self last_time xs of
             None \<Rightarrow> None
           | Some (sent, Inl e) \<Rightarrow> Some (fs, Failed e)
           | Some (sent, Inr new_trades) \<Rightarrow>
               if new_trades = [] then Some (fs, No_New_Trades)
               else (case transform_trades L new_trades of
                  Inl e \<Rightarrow> Some (fs, Failed e)
                | Inr rows \<Rightarrow>
                    let fs1 = fs(output_filename args \<mapsto> Csv FIELDNAMES rows)
                    in (case latest_ctime L new_trades of
                          Inl e \<Rightarrow> Some (fs1, Failed e)
                        | Inr latest_time \<Rightarrow> Some (save_state latest_time fs1, Exported)))))"

text \<open>
  \<^verbatim>\<open>main\<close>: the credentials, the client, then the run above. \<^verbatim>\<open>BitunixClient\<close> is
  declared for two \<^verbatim>\<open>str\<close>; keys of another type are reported as \<open>Ill_Typed\<close>.
\<close>

definition main :: "pylib \<Rightarrow> invocation \<Rightarrow> exchange list \<Rightarrow> files \<Rightarrow> (files \<times> run_outcome) option" where
  "main L args xs fs =
     (case load_credentials fs of
        Inl e \<Rightarrow> Some (fs, Failed e)
      | Inr (JStr k, JStr s) \<Rightarrow>
          (case new_client k s of
             Inl e \<Rightarrow> Some (fs, Failed e)
           | Inr self \<Rightarrow> main_body L self args xs fs)
      | Inr _ \<Rightarrow> Some (fs, Ill_Typed))"

section \<open>A library to run the model with\<close>

text \<open>
  Stand-ins for the library functions, to evaluate the model on concrete inputs: the
  hash is replaced by the reversal of its input, and the parsers know the few strings
  the examples use.
\<close>

definition example_lib :: pylib where
  "example_lib =
     \<lparr>sha256_hexdigest = rev,
      json_compact = (\<lambda>b. if b = ''{ \"a\": 1 }'' then Some ''{\"a\":1}'' else None),
      int_of_str = (\<lambda>s. if s = ''1700000000000'' then Some 1700000000000 else None),
      isoformat_ms = (\<lambda>s. if s = ''2024-01-01T00:00:00+00:00'' then Some 1704067200000 else None),
      str_upper = (\<lambda>s. s),
      py_repr = (\<lambda>v. ''[]'')\<rparr>"

section \<open>Notions used in the statements\<close>

definition newer :: "pylib \<Rightarrow> int \<Rightarrow> dict \<Rightarrow> bool" where
  \<comment> \<open>the creation timestamp, as the script reads it, is strictly after the checkpoint\<close>
  "newer L t tr = (case ctime_of L tr of Inl e \<Rightarrow> False | Inr c \<Rightarrow> t < c)"

definition newer_than :: "pylib \<Rightarrow> jval \<Rightarrow> dict \<Rightarrow> bool" where
  \<comment> \<open>the same for any value the timestamp is compared with: \<^verbatim>\<open>ctime > start_time\<close> holds\<close>
  "newer_than L start tr =
     (case ctime_of L tr of Inl e \<Rightarrow> False | Inr c \<Rightarrow> py_gt_int c start = Inr True)"

fun step_trades :: "step \<Rightarrow> dict list" where
  "step_trades (Next trades skip) = trades"
| "step_trades (Stop trades) = trades"
| "step_trades (Fail e trades) = trades"

definition header :: "request \<Rightarrow> string \<Rightarrow> string" where
  "header q name = (case map_of (headers q) name of None \<Rightarrow> [] | Some v \<Rightarrow> v)"

definition nonce_of :: "request \<Rightarrow> string" where
  "nonce_of q = header q ''nonce''"

definition sent_nonces :: "(request list \<times> 'a) option \<Rightarrow> string list option" where
  "sent_nonces res = map_option (map nonce_of \<circ> fst) res"

definition returned :: "(request list \<times> 'a) option \<Rightarrow> 'a option" where
  "returned res = map_option snd res"

text \<open>
  The replies the pagination distinguishes. \<open>page_of\<close> is the trade list of a reply that
  arrived with a good status, parsed to a dict without an \<^verbatim>\<open>error\<close> key, and holds a
  list under \<^verbatim>\<open>data.tradeList\<close> (both default to empty).
\<close>

definition page_of :: "outcome \<Rightarrow> jval list option" where
  "page_of r =
     (case r of
        Raises e \<Rightarrow> None
      | Responds resp \<Rightarrow>
          if \<not> status_ok resp then None
          else (case json resp of
             Some (JObj d) \<Rightarrow>
               if ''error'' \<in> set (map fst d) then None
               else (case dict_get d ''data'' (JObj []) of
                  JObj dd \<Rightarrow>
                    (case dict_get dd ''tradeList'' (JArr []) of
                       JArr es \<Rightarrow> Some es
                     | _ \<Rightarrow> None)
                | _ \<Rightarrow> None)
           | _ \<Rightarrow> None))"

definition entries_of :: "outcome \<Rightarrow> jval list" where
  "entries_of r = (case page_of r of Some es \<Rightarrow> es | None \<Rightarrow> [])"

definition readable :: "pylib \<Rightarrow> jval \<Rightarrow> bool" where
  \<comment> \<open>a trade entry that is a dict whose \<^verbatim>\<open>ctime\<close> converts to an \<^verbatim>\<open>int\<close>\<close>
  "readable L e =
     (case e of
        JObj d \<Rightarrow> (case ctime_of L d of Inr c \<Rightarrow> True | Inl x \<Rightarrow> False)
      | _ \<Rightarrow> False)"

definition full_page :: "pylib \<Rightarrow> outcome \<Rightarrow> bool" where
  "full_page L r =
     (case page_of r of
        Some es \<Rightarrow> limit \<le> length es \<and> list_all (readable L) es
      | None \<Rightarrow> False)"

definition short_page :: "outcome \<Rightarrow> bool" where
  "short_page r = (case page_of r of Some es \<Rightarrow> es \<noteq> [] \<and> length es < limit | None \<Rightarrow> False)"

definition empty_page :: "outcome \<Rightarrow> bool" where
  "empty_page r = (page_of r = Some [])"

definition remote_error :: "outcome \<Rightarrow> bool" where
  "remote_error r =
     (case r of
        Raises e \<Rightarrow> False
      | Responds resp \<Rightarrow>
          status_ok resp \<and>
          (case json resp of Some (JObj d) \<Rightarrow> ''error'' \<in> set (map fst d) | _ \<Rightarrow> False))"

definition transport_failure :: "outcome \<Rightarrow> bool" where
  "transport_failure r =
     (case r of Raises e \<Rightarrow> e = ConnectionError | Responds resp \<Rightarrow> \<not> status_ok resp)"

definition malformed_body :: "outcome \<Rightarrow> bool" where
  "malformed_body r =
     (case r of Raises e \<Rightarrow> False | Responds resp \<Rightarrow> status_ok resp \<and> json resp = None)"

fun newer_entries :: "pylib \<Rightarrow> int \<Rightarrow> jval list \<Rightarrow> dict list" where
  \<comment> \<open>the entries of a page that are dicts with a timestamp after the checkpoint, in order\<close>
  "newer_entries L t [] = []"
| "newer_entries L t (JObj d # es) =
     (if newer L t d then d # newer_entries L t es else newer_entries L t es)"
| "newer_entries L t (e # es) = newer_entries L t es"

definition last_kept :: "pylib \<Rightarrow> int \<Rightarrow> outcome \<Rightarrow> dict list" where
  \<comment> \<open>what the loop has appended from the reply it stops at\<close>
  "last_kept L t r =
     (if short_page r then snd (process_page L (JInt t) (entries_of r) []) else [])"

definition bound_after :: "bool \<Rightarrow> outcome \<Rightarrow> bool" where
  \<comment> \<open>whether \<^verbatim>\<open>resp\<close> is assigned once this reply has come in\<close>
  "bound_after b r = (b \<or> (case r of Responds _ \<Rightarrow> True | Raises _ \<Rightarrow> False))"

definition ctime_key :: "pylib \<Rightarrow> dict \<Rightarrow> int" where
  \<comment> \<open>the sort key of a record whose timestamp converts\<close>
  "ctime_key L tr = (case ctime_of L tr of Inr c \<Rightarrow> c | Inl e \<Rightarrow> 0)"

definition exportable :: "pylib \<Rightarrow> dict \<Rightarrow> bool" where
  \<comment> \<open>the timestamp converts to an \<^verbatim>\<open>int\<close> whose instant has a year from 1 to 9999, and
      \<^verbatim>\<open>side\<close>, when present, is a string\<close>
  "exportable L tr =
     (case ctime_of L tr of
        Inl e \<Rightarrow> False
      | Inr c \<Rightarrow>
          (case fromtimestamp_utc c of Inl e \<Rightarrow> False | Inr dt \<Rightarrow> True) \<and>
          (case map_of tr ''side'' of None \<Rightarrow> True | Some (JStr s) \<Rightarrow> True | Some v \<Rightarrow> False))"

subsection \<open>Example inputs\<close>

definition example_client :: client where
  "example_client = \<lparr>api_key = ''K'', api_secret = ''S''\<rparr>"

definition example_page :: "jval list" where
  "example_page =
     [JObj [(''ctime'', JInt 1699999999999), (''symbol'', JStr ''ETHUSDT'')],
      JObj [(''ctime'', JInt 1700000086400), (''symbol'', JStr ''SOLUSDT'')],
      JObj [(''ctime'', JStr ''1700000000000''), (''symbol'', JStr ''BTCUSDT''),
            (''side'', JStr ''sell'')],
      JObj [(''ctime'', JInt 1700000000001), (''symbol'', JStr ''BTCUSDT''),
            (''side'', JStr ''buy''), (''qty'', JStr ''0.5''), (''price'', JStr ''37000''),
            (''fee'', JStr ''0.01'')]]"

definition page_reply :: "jval list \<Rightarrow> outcome" where
  "page_reply entries =
     Responds \<lparr>status_ok = True,
               json = Some (JObj [(''code'', JInt 0),
                                  (''data'', JObj [(''tradeList'', JArr entries)])])\<rparr>"

definition example_exchange :: "outcome \<Rightarrow> exchange" where
  "example_exchange r = \<lparr>clock = 1700000100000, entropy = (\<lambda>i. 16 * i + 7), reply = r\<rparr>"

definition full_example_page :: "jval list" where
  "full_example_page = replicate 100 (JObj [(''ctime'', JInt 1700000000500)])"

definition example_credentials :: content where
  "example_credentials =
     Json (JObj [(''api_key'', JStr ''K''), (''secret_key'', JStr ''S''),
                 (''start_time'', JStr ''2024-01-01T00:00:00Z'')])"

definition files_without_state :: files where
  "files_without_state = Map.empty(CREDENTIALS_FILE \<mapsto> example_credentials)"

definition files_with_empty_state :: files where
  "files_with_empty_state = files_without_state(STATE_FILE \<mapsto> Json (JObj []))"

definition files_with_state :: "int \<Rightarrow> files" where
  "files_with_state t = files_without_state(STATE_FILE \<mapsto> Json (JObj [(''last_time'', JInt t)]))"

definition files_with_bad_start_time :: files where
  "files_with_bad_start_time =
     Map.empty(CREDENTIALS_FILE \<mapsto> Json (JObj [(''start_time'', JStr ''yesterday'')]))"

definition checkpoint_after :: "(files \<times> run_outcome) option \<Rightarrow> (content option \<times> run_outcome) option" where
  \<comment> \<open>the state file and the outcome a run ends with\<close>
  "checkpoint_after res = map_option (\<lambda>(fs, out). (fs STATE_FILE, out)) res"

definition file_after :: "string \<Rightarrow> (files \<times> run_outcome) option \<Rightarrow> content option option" where
  \<comment> \<open>the file of that name when the run has ended\<close>
  "file_after name res = map_option (\<lambda>(fs, out). fs name) res"

definition example_args :: invocation where
  "example_args = \<lparr>arg_output = Some ''out.csv'', started = ''20231114_221500''\<rparr>"

definition example_trades :: "dict list" where
  "example_trades =
     [[(''ctime'', JInt 1700000086400), (''symbol'', JStr ''SOLUSDT'')],
      [(''ctime'', JInt 1700000000001), (''symbol'', JStr ''BTCUSDT''), (''side'', JStr ''buy''),
       (''qty'', JStr ''0.5''), (''price'', JStr ''37000''), (''fee'', JStr ''0.01'')],
      [(''symbol'', JStr ''ETHUSDT''), (''side'', JStr ''Sell'')]]"

definition example_rows :: "row list" where
  \<comment> \<open>the rows of the two entries of \<open>example_page\<close> after 1700000000000, oldest first\<close>
  "example_rows =
     [\<lparr>Date = ''11/14/23'', Time = ''22:13:20'', Symbol = JStr ''BTCUSDT'',
       Buy_Sell = ''BUY'', Quantity = JStr ''0.5'', Price = JStr ''37000'',
       Spread = ''Crypto'', Expiration = [], Strike = [], Call_Put = [],
       Commission = JStr ''0.01'', Fees = []\<rparr>,
      \<lparr>Date = ''11/14/23'', Time = ''22:14:46'', Symbol = JStr ''SOLUSDT'',
       Buy_Sell = [], Quantity = JStr [], Price = JStr [], Spread = ''Crypto'',
       Expiration = [], Strike = [], Call_Put = [], Commission = JStr [], Fees = []\<rparr>]"
section \<open>Properties of the signer\<close>

lemma py_insert_insort:
  "fst x \<notin> fst ` set ys \<Longrightarrow> py_insert x ys = Inr (insort_key fst x ys)"
proof (induction ys)
  case Nil
  show ?case by simp
next
  case (Cons y ys)
  obtain k v where x: "x = (k, v)" by (cases x)
  obtain k' v' where y: "y = (k', v')" by (cases y)
  from Cons.prems x y have ne: "k \<noteq> k'" by auto
  from Cons.prems have "fst x \<notin> fst ` set ys" by auto
  with Cons.IH have ih: "py_insert x ys = Inr (insort_key fst x ys)" by simp
  show ?case
  proof (cases "k' < k")
    case True
    with ne ih x y show ?thesis by auto
  next
    case False
    with ne have "k \<le> k'" by auto
    with False ne x y show ?thesis by auto
  qed
qed

lemma py_sorted_sort_key:
  "distinct (map fst ps) \<Longrightarrow> py_sorted ps = Inr (sort_key fst ps)"
proof (induction ps)
  case Nil
  show ?case by simp
next
  case (Cons p ps)
  then have ih: "py_sorted ps = Inr (sort_key fst ps)" by simp
  from Cons.prems have "fst p \<notin> fst ` set (sort_key fst ps)" by auto
  then have "py_insert p (sort_key fst ps) = Inr (insort_key fst p (sort_key fst ps))"
    by (rule py_insert_insort)
  with ih show ?case by simp
qed

lemma sort_key_same_items:
  assumes d1: "distinct (map fst ps)" and d2: "distinct (map fst qs)"
    and eq: "set ps = set qs"
  shows "sort_key fst ps = sort_key fst qs"
proof (rule map_sorted_distinct_set_unique [where f = fst])
  from d1 have "inj_on fst (set ps)" by (simp add: distinct_map)
  with eq show "inj_on fst (set (sort_key fst ps) \<union> set (sort_key fst qs))" by simp
next
  show "sorted (map fst (sort_key fst ps))" by simp
next
  show "sorted (map fst (sort_key fst qs))" by simp
next
  from d1 show "distinct (map fst (sort_key fst ps))"
    by (simp add: distinct_map)
next
  from d2 show "distinct (map fst (sort_key fst qs))"
    by (simp add: distinct_map)
next
  from eq show "set (sort_key fst ps) = set (sort_key fst qs)" by simp
qed

text \<open>
  Claim C1. For a query-parameter dict (pairwise distinct keys) and a body that is valid
  JSON when present, \<open>sign_request\<close> returns the hex SHA-256 of: the hex SHA-256 of
  nonce, timestamp, key id, the key-then-value pairs in ascending key order and the
  compact body, all concatenated without separators; followed by the secret key.
  An absent (or empty) body contributes nothing.
\<close>

theorem sign_request_double_hash:
  assumes "distinct (map fst ps)"
    and "\<forall>b. body = Some b \<longrightarrow> json_compact L b \<noteq> None"
  shows "sign_request L self nonce timestamp (Some ps) body =
           Inr (sha256_hexdigest L
                  (sha256_hexdigest L
                     (nonce @ timestamp @ api_key self
                        @ concat (map (\<lambda>(k, v). k @ format_scalar v) (sort_key fst ps))
                        @ (case body of None \<Rightarrow> []
                           | Some b \<Rightarrow> if b = [] then [] else the (json_compact L b)))
                   @ api_secret self))"
proof -
  from assms(1) have srt: "py_sorted ps = Inr (sort_key fst ps)" by (rule py_sorted_sort_key)
  have q: "query_string (Some ps) =
             Inr (concat (map (\<lambda>(k, v). k @ format_scalar v) (sort_key fst ps)))"
    using srt by (cases ps) (simp_all add: query_string_def)
  have b: "compact_body L body =
             Inr (case body of None \<Rightarrow> [] | Some b \<Rightarrow> if b = [] then [] else the (json_compact L b))"
    using assms(2) by (auto simp: compact_body_def split: option.splits)
  show ?thesis by (simp add: sign_request_def q b Let_def)
qed

theorem sign_request_double_hash_witness:
  "distinct (map fst [(''startTime'', SInt 5), (''skip'', SInt 0), (''limit'', SInt 100)])
   \<and> json_compact example_lib ''{ \"a\": 1 }'' \<noteq> None
   \<and> sign_request example_lib \<lparr>api_key = ''K'', api_secret = ''S''\<rparr> ''n1'' ''17''
         (Some [(''startTime'', SInt 5), (''skip'', SInt 0), (''limit'', SInt 100)])
         (Some ''{ \"a\": 1 }'')
       = Inr ''Sn117Klimit100skip0startTime5{\"a\":1}''"
proof -
  have h1: "distinct (map fst [(''startTime'', SInt 5), (''skip'', SInt 0), (''limit'', SInt 100)])"
    by simp
  have h2: "\<forall>b. Some ''{ \"a\": 1 }'' = Some b \<longrightarrow> json_compact example_lib b \<noteq> None"
    by (simp add: example_lib_def)
  have "sign_request example_lib \<lparr>api_key = ''K'', api_secret = ''S''\<rparr> ''n1'' ''17''
         (Some [(''startTime'', SInt 5), (''skip'', SInt 0), (''limit'', SInt 100)])
         (Some ''{ \"a\": 1 }'')
       = Inr ''Sn117Klimit100skip0startTime5{\"a\":1}''"
    unfolding sign_request_double_hash [OF h1 h2] by code_simp
  moreover from h2 have "json_compact example_lib ''{ \"a\": 1 }'' \<noteq> None" by simp
  ultimately show ?thesis using h1 by blast
qed

text \<open>
  Claim C5. Two query-parameter dicts that hold the same key-value pairs, inserted in
  different orders, get the same signature (and the same exception when the body is not
  valid JSON).
\<close>

theorem sign_request_order_invariant:
  assumes "distinct (map fst ps)" and "distinct (map fst qs)" and "set ps = set qs"
  shows "sign_request L self nonce timestamp (Some ps) body =
         sign_request L self nonce timestamp (Some qs) body"
proof -
  from assms have "sort_key fst ps = sort_key fst qs" by (rule sort_key_same_items)
  moreover from assms(1) have "py_sorted ps = Inr (sort_key fst ps)" by (rule py_sorted_sort_key)
  moreover from assms(2) have "py_sorted qs = Inr (sort_key fst qs)" by (rule py_sorted_sort_key)
  moreover from assms(3) have "ps = [] \<longleftrightarrow> qs = []" by auto
  ultimately have "query_string (Some ps) = query_string (Some qs)"
    by (simp add: query_string_def)
  then show ?thesis by (simp add: sign_request_def)
qed

theorem sign_request_order_invariant_witness:
  "distinct (map fst [(''startTime'', SInt 5), (''skip'', SInt 0), (''limit'', SInt 100)])
   \<and> distinct (map fst [(''limit'', SInt 100), (''startTime'', SInt 5), (''skip'', SInt 0)])
   \<and> set [(''startTime'', SInt 5), (''skip'', SInt 0), (''limit'', SInt 100)]
       = set [(''limit'', SInt 100), (''startTime'', SInt 5), (''skip'', SInt 0)]
   \<and> sign_request example_lib \<lparr>api_key = ''K'', api_secret = ''S''\<rparr> ''n1'' ''17''
         (Some [(''startTime'', SInt 5), (''skip'', SInt 0), (''limit'', SInt 100)]) None
     = sign_request example_lib \<lparr>api_key = ''K'', api_secret = ''S''\<rparr> ''n1'' ''17''
         (Some [(''limit'', SInt 100), (''startTime'', SInt 5), (''skip'', SInt 0)]) None"
proof -
  have h1: "distinct (map fst [(''startTime'', SInt 5), (''skip'', SInt 0), (''limit'', SInt 100)])"
    by simp
  have h2: "distinct (map fst [(''limit'', SInt 100), (''startTime'', SInt 5), (''skip'', SInt 0)])"
    by simp
  have h3: "set [(''startTime'', SInt 5), (''skip'', SInt 0), (''limit'', SInt 100)]
       = set [(''limit'', SInt 100), (''startTime'', SInt 5), (''skip'', SInt 0)]"
    by auto
  from sign_request_order_invariant [OF h1 h2 h3] h1 h2 h3 show ?thesis by blast
qed

section \<open>Properties of the protocol client\<close>

lemma py_gt_int_JInt [simp]: "py_gt_int c (JInt t) = Inr (t < c)"
  by (simp add: py_gt_int_def)

lemma as_scalar_JInt [simp]: "as_scalar L (JInt t) = SInt t"
  by (simp add: as_scalar_def)

lemma newer_than_JInt: "newer_than L (JInt t) tr = newer L t tr"
  by (simp add: newer_than_def newer_def split: sum.splits)

lemma process_page_newer:
  "\<forall>tr \<in> set trades. newer_than L s tr \<Longrightarrow>
   \<forall>tr \<in> set (snd (process_page L s page trades)). newer_than L s tr"
proof (induction page arbitrary: trades)
  case Nil
  then show ?case by simp
next
  case (Cons e page)
  show ?case
  proof (cases e)
    case (JObj d)
    show ?thesis
    proof (cases "ctime_of L d")
      case (Inl err)
      with JObj Cons.prems show ?thesis by simp
    next
      case (Inr c)
      show ?thesis
      proof (cases "py_gt_int c s")
        case (Inl err)
        with JObj \<open>ctime_of L d = Inr c\<close> Cons.prems show ?thesis by simp
      next
        case later: (Inr later)
        have "\<forall>tr \<in> set (if later then trades @ [d] else trades). newer_than L s tr"
          using Cons.prems Inr later by (simp add: newer_than_def)
        then have "\<forall>tr \<in> set (snd (process_page L s page (if later then trades @ [d] else trades))).
                     newer_than L s tr"
          by (rule Cons.IH)
        with JObj Inr later show ?thesis by simp
      qed
    qed
  qed (use Cons.prems in simp_all)
qed

lemma try_body_newer:
  assumes "\<forall>tr \<in> set trades. newer_than L s tr"
  shows "\<forall>tr \<in> set (step_trades (try_body L s trades skip r)). newer_than L s tr"
proof -
  have pp: "\<forall>tr \<in> set (snd (process_page L s es trades)). newer_than L s tr" for es
    using assms by (rule process_page_newer)
  have "\<forall>tr \<in> set trs. newer_than L s tr" if "process_page L s es trades = (eo, trs)" for es eo trs
    using pp [of es] that by simp
  with assms show ?thesis
    by (auto simp: try_body_def split: outcome.splits option.splits sum.splits bool.splits prod.splits)
qed

lemma fetch_loop_newer:
  "fetch_loop L self s trades skip b sent xs = Some (sent', Inr res) \<Longrightarrow>
   \<forall>tr \<in> set trades. newer_than L s tr \<Longrightarrow> \<forall>tr \<in> set res. newer_than L s tr"
proof (induction xs arbitrary: trades skip b sent)
  case Nil
  then show ?case by simp
next
  case (Cons x xs)
  let ?st = "try_body L s trades skip (reply x)"
  have st: "\<forall>tr \<in> set (step_trades ?st). newer_than L s tr"
    using Cons.prems(2) by (rule try_body_newer)
  show ?case
  proof (cases ?st)
    case (Next trades' skip')
    with st have n: "\<forall>tr \<in> set trades'. newer_than L s tr" by simp
    from Cons.prems(1) Next obtain b' s' where
      "fetch_loop L self s trades' skip' b' s' xs = Some (sent', Inr res)"
      by (auto simp: Let_def split: sum.splits)
    from Cons.IH [OF this n] show ?thesis .
  next
    case (Stop trades')
    with Cons.prems(1) have "res = trades'" by (auto simp: Let_def split: sum.splits)
    with st Stop show ?thesis by simp
  next
    case (Fail e trades')
    with Cons.prems(1) have "res = trades'"
      by (auto simp: Let_def split: sum.splits option.splits)
    with st Fail show ?thesis by simp
  qed
qed

text \<open>
  Claim C2. Every record in the list that \<open>fetch_trades\<close> returns for the checkpoint
  \<open>t\<close> has a creation timestamp (\<^verbatim>\<open>int(tr.get('ctime', 0))\<close>, as the script reads it)
  strictly greater than \<open>t\<close>.
\<close>

theorem fetch_trades_newer_than_checkpoint:
  assumes "fetch_trades L self t xs = Some (sent, Inr trades)"
  shows "\<forall>tr \<in> set trades. \<exists>c. ctime_of L tr = Inr c \<and> t < c"
proof -
  from assms have "fetch_loop L self (JInt t) [] 0 False [] xs = Some (sent, Inr trades)"
    by (simp add: fetch_trades_def fetch_trades_any_def)
  then have "\<forall>tr \<in> set trades. newer_than L (JInt t) tr" by (rule fetch_loop_newer) simp
  then have *: "\<forall>tr \<in> set trades. newer L t tr" by (simp only: newer_than_JInt)
  show ?thesis
  proof
    fix tr assume "tr \<in> set trades"
    with * have "newer L t tr" by simp
    then show "\<exists>c. ctime_of L tr = Inr c \<and> t < c"
      by (cases "ctime_of L tr") (simp_all add: newer_def)
  qed
qed

theorem fetch_trades_newer_than_checkpoint_witness:
  "returned (fetch_trades example_lib example_client 1700000000000
              [example_exchange (page_reply example_page)])
     = Some (Inr [[(''ctime'', JInt 1700000086400), (''symbol'', JStr ''SOLUSDT'')],
                  [(''ctime'', JInt 1700000000001), (''symbol'', JStr ''BTCUSDT''),
                   (''side'', JStr ''buy''), (''qty'', JStr ''0.5''), (''price'', JStr ''37000''),
                   (''fee'', JStr ''0.01'')]])
   \<and> list_all (newer example_lib 1700000000000)
         [[(''ctime'', JInt 1700000086400), (''symbol'', JStr ''SOLUSDT'')],
          [(''ctime'', JInt 1700000000001), (''symbol'', JStr ''BTCUSDT''),
           (''side'', JStr ''buy''), (''qty'', JStr ''0.5''), (''price'', JStr ''37000''),
           (''fee'', JStr ''0.01'')]]"
proof -
  let ?T = "[[(''ctime'', JInt 1700000086400), (''symbol'', JStr ''SOLUSDT'')],
                  [(''ctime'', JInt 1700000000001), (''symbol'', JStr ''BTCUSDT''),
                   (''side'', JStr ''buy''), (''qty'', JStr ''0.5''), (''price'', JStr ''37000''),
                   (''fee'', JStr ''0.01'')]]"
  have r: "returned (fetch_trades example_lib example_client 1700000000000
              [example_exchange (page_reply example_page)]) = Some (Inr ?T)"
    by code_simp
  then obtain sent where
    "fetch_trades example_lib example_client 1700000000000
       [example_exchange (page_reply example_page)] = Some (sent, Inr ?T)"
    by (auto simp: returned_def)
  from fetch_trades_newer_than_checkpoint [OF this]
  have "\<forall>tr \<in> set ?T. newer example_lib 1700000000000 tr"
    by (auto simp: newer_def)
  then have "list_all (newer example_lib 1700000000000) ?T" by (simp only: list_all_iff)
  with r show ?thesis by blast
qed

subsection \<open>The nonce of a request\<close>

lemma length_token_hex: "length (token_hex n rnd) = 2 * n"
  by (induction n) (simp_all add: token_hex_def hex_byte_def)

lemma digit_char_hex: "0 \<le> d \<Longrightarrow> d < 16 \<Longrightarrow> digit_char d \<in> set ''0123456789abcdef''"
proof -
  assume "0 \<le> d" "d < 16"
  then have "nat d < length ''0123456789abcdef''" by simp
  then show ?thesis unfolding digit_char_def by (rule nth_mem)
qed

lemma hex_byte_chars: "b < 256 \<Longrightarrow> set (hex_byte b) \<subseteq> set ''0123456789abcdef''"
proof -
  assume b: "b < 256"
  have pair: "set [x, y] \<subseteq> H" if "x \<in> H" "y \<in> H" for x y :: char and H
    using that by simp
  have "0 \<le> int b div 16" by simp
  moreover from b have "int b div 16 < 16" by simp
  ultimately have 1: "digit_char (int b div 16) \<in> set ''0123456789abcdef''"
    by (rule digit_char_hex)
  have "0 \<le> int b mod 16" "int b mod 16 < 16" by simp_all
  then have 2: "digit_char (int b mod 16) \<in> set ''0123456789abcdef''"
    by (rule digit_char_hex)
  from 1 2 show ?thesis unfolding hex_byte_def by (rule pair)
qed

lemma token_hex_chars: "set (token_hex n rnd) \<subseteq> set ''0123456789abcdef''"
proof
  fix c assume "c \<in> set (token_hex n rnd)"
  then obtain i where "c \<in> set (hex_byte (rnd i mod 256))"
    unfolding token_hex_def by auto
  moreover have "rnd i mod 256 < 256" by simp
  ultimately show "c \<in> set ''0123456789abcdef''" using hex_byte_chars by blast
qed

lemma nonce_of_build_request [simp]:
  "nonce_of (build_request self now_ms nonce signature ps) = nonce"
  by (simp add: nonce_of_def header_def build_request_def)

lemma fetch_loop_nonces:
  "fetch_loop L self s0 trades skip b sent0 xs = Some (sent, r) \<Longrightarrow>
   \<exists>k \<le> length xs. map nonce_of sent =
      map nonce_of sent0 @ map (\<lambda>x. token_hex 8 (entropy x)) (take k xs)"
proof (induction xs arbitrary: trades skip b sent0)
  case Nil
  then show ?case by simp
next
  case (Cons x xs)
  let ?ps = "[(''startTime'', as_scalar L s0), (''skip'', SInt (int skip)), (''limit'', SInt (int limit))]"
  let ?sg = "sign_request L self (token_hex 8 (entropy x)) (str_int (clock x)) (Some ?ps) None"
  show ?case
  proof (cases ?sg)
    case (Inl e)
    with Cons.prems have "sent = sent0" by (simp add: Let_def)
    then have "map nonce_of sent =
      map nonce_of sent0 @ map (\<lambda>x. token_hex 8 (entropy x)) (take 0 (x # xs))" by simp
    then show ?thesis by blast
  next
    case (Inr sg)
    let ?sent' = "sent0 @ [build_request self (str_int (clock x)) (token_hex 8 (entropy x)) sg ?ps]"
    let ?b' = "b \<or> (case reply x of Responds _ \<Rightarrow> True | Raises _ \<Rightarrow> False)"
    have one: "map nonce_of ?sent' =
      map nonce_of sent0 @ map (\<lambda>x. token_hex 8 (entropy x)) (take 1 (x # xs))" by simp
    show ?thesis
    proof (cases "try_body L s0 trades skip (reply x)")
      case (Next trades' skip')
      with Cons.prems Inr have "fetch_loop L self s0 trades' skip' ?b' ?sent' xs = Some (sent, r)"
        by (simp add: Let_def)
      from Cons.IH [OF this] obtain k where k: "k \<le> length xs"
        and m: "map nonce_of sent =
                  map nonce_of ?sent' @ map (\<lambda>x. token_hex 8 (entropy x)) (take k xs)"
        by blast
      from m have "map nonce_of sent =
        map nonce_of sent0 @ map (\<lambda>x. token_hex 8 (entropy x)) (take (Suc k) (x # xs))"
        by simp
      moreover from k have "Suc k \<le> length (x # xs)" by simp
      ultimately show ?thesis by blast
    next
      case (Stop trades')
      with Cons.prems Inr have "sent = ?sent'" by (simp add: Let_def)
      with one have "map nonce_of sent =
        map nonce_of sent0 @ map (\<lambda>x. token_hex 8 (entropy x)) (take 1 (x # xs))" by simp
      moreover have "(1::nat) \<le> length (x # xs)" by simp
      ultimately show ?thesis by blast
    next
      case (Fail e trades')
      with Cons.prems Inr have "sent = ?sent'"
        by (auto simp: Let_def split: option.splits)
      with one have "map nonce_of sent =
        map nonce_of sent0 @ map (\<lambda>x. token_hex 8 (entropy x)) (take 1 (x # xs))" by simp
      moreover have "(1::nat) \<le> length (x # xs)" by simp
      ultimately show ?thesis by blast
    qed
  qed
qed

text \<open>
  Claim C7, as stated, asks for a nonce of at least 16 random bytes, 32 hex characters.
  The one request of this run carries a nonce of 16 hex characters.
\<close>

theorem nonce_32_hex_counterexample:
  "sent_nonces (fetch_trades example_lib example_client 1700000000000
                  [example_exchange (page_reply example_page)])
     = Some [''0717273747576777'']
   \<and> length ''0717273747576777'' < 32"
  by code_simp

text \<open>
  Claim C7, amended. Every request that \<open>fetch_trades\<close> sends carries as nonce the
  hex encoding of 8 bytes drawn from the operating system's random source for that
  request (\<^verbatim>\<open>secrets.token_hex(8)\<close>): exactly 16 lowercase hex characters. The
  \<open>i\<close>-th request uses the bytes drawn in the \<open>i\<close>-th pass of the loop.
\<close>

theorem fetch_trades_nonce_16_hex:
  assumes "fetch_trades L self t xs = Some (sent, r)"
  shows "length sent \<le> length xs \<and>
         (\<forall>i < length sent.
            nonce_of (sent ! i) = token_hex 8 (entropy (xs ! i)) \<and>
            length (nonce_of (sent ! i)) = 16 \<and>
            set (nonce_of (sent ! i)) \<subseteq> set ''0123456789abcdef'')"
proof -
  from assms have "fetch_loop L self (JInt t) [] 0 False [] xs = Some (sent, r)"
    by (simp add: fetch_trades_def fetch_trades_any_def)
  from fetch_loop_nonces [OF this] obtain k where k: "k \<le> length xs"
    and m: "map nonce_of sent = map (\<lambda>x. token_hex 8 (entropy x)) (take k xs)"
    by auto
  from m have "length (map nonce_of sent) = length (map (\<lambda>x. token_hex 8 (entropy x)) (take k xs))"
    by simp
  with k have len: "length sent = k" by simp
  have each: "nonce_of (sent ! i) = token_hex 8 (entropy (xs ! i))" if "i < length sent" for i
  proof -
    from that have "nonce_of (sent ! i) = map nonce_of sent ! i" by simp
    also have "\<dots> = map (\<lambda>x. token_hex 8 (entropy x)) (take k xs) ! i" by (simp only: m)
    also from that len k have "\<dots> = token_hex 8 (entropy (xs ! i))" by simp
    finally show ?thesis .
  qed
  show ?thesis
  proof (intro conjI allI impI)
    from len k show "length sent \<le> length xs" by simp
  next
    fix i assume "i < length sent"
    then show "nonce_of (sent ! i) = token_hex 8 (entropy (xs ! i))" by (rule each)
  next
    fix i assume "i < length sent"
    then have "nonce_of (sent ! i) = token_hex 8 (entropy (xs ! i))" by (rule each)
    then show "length (nonce_of (sent ! i)) = 16" by (simp add: length_token_hex)
  next
    fix i assume "i < length sent"
    then have "nonce_of (sent ! i) = token_hex 8 (entropy (xs ! i))" by (rule each)
    then show "set (nonce_of (sent ! i)) \<subseteq> set ''0123456789abcdef''"
      by (simp only: token_hex_chars)
  qed
qed

theorem fetch_trades_nonce_16_hex_witness:
  "\<exists>sent r.
     fetch_trades example_lib example_client 1700000000000
       [example_exchange (page_reply example_page)] = Some (sent, r)
     \<and> length sent \<le> length [example_exchange (page_reply example_page)]
     \<and> (\<forall>i < length sent.
            nonce_of (sent ! i)
              = token_hex 8 (entropy ([example_exchange (page_reply example_page)] ! i)) \<and>
            length (nonce_of (sent ! i)) = 16 \<and>
            set (nonce_of (sent ! i)) \<subseteq> set ''0123456789abcdef'')"
proof -
  have "sent_nonces (fetch_trades example_lib example_client 1700000000000
                       [example_exchange (page_reply example_page)])
          = Some [''0717273747576777'']"
    by code_simp
  then obtain sent r where f:
    "fetch_trades example_lib example_client 1700000000000
       [example_exchange (page_reply example_page)] = Some (sent, r)"
    by (auto simp: sent_nonces_def)
  from fetch_trades_nonce_16_hex [OF f] f show ?thesis by blast
qed

subsection \<open>Leaving the pagination loop\<close>

lemma sign_request_fetch_params:
  "\<exists>s. sign_request L self n ts
          (Some [(''startTime'', a), (''skip'', b), (''limit'', c)]) None = Inr s"
proof -
  have "distinct (map fst [(''startTime'', a), (''skip'', b), (''limit'', c)])" by simp
  then have "py_sorted [(''startTime'', a), (''skip'', b), (''limit'', c)]
               = Inr (sort_key fst [(''startTime'', a), (''skip'', b), (''limit'', c)])"
    by (rule py_sorted_sort_key)
  then have "\<exists>q. query_string (Some [(''startTime'', a), (''skip'', b), (''limit'', c)]) = Inr q"
    by (simp add: query_string_def)
  then show ?thesis by (auto simp: sign_request_def compact_body_def Let_def)
qed

lemma process_page_append:
  "process_page L (JInt t) es trades =
     (fst (process_page L (JInt t) es []), trades @ snd (process_page L (JInt t) es []))"
proof (induction es arbitrary: trades)
  case Nil
  show ?case by simp
next
  case (Cons e es)
  show ?case
  proof (cases e)
    case (JObj d)
    show ?thesis
    proof (cases "ctime_of L d")
      case (Inl x)
      with JObj show ?thesis by simp
    next
      case (Inr c)
      show ?thesis
      proof (cases "t < c")
        case True
        have "process_page L (JInt t) es (trades @ [d]) =
                (fst (process_page L (JInt t) es []), (trades @ [d]) @ snd (process_page L (JInt t) es []))"
          by (rule Cons.IH)
        moreover have "process_page L (JInt t) es [d] =
                (fst (process_page L (JInt t) es []), [d] @ snd (process_page L (JInt t) es []))"
          by (rule Cons.IH)
        ultimately show ?thesis using JObj Inr True by simp
      next
        case False
        with JObj Inr Cons.IH [of trades] show ?thesis by simp
      qed
    qed
  qed simp_all
qed

lemma process_page_readable:
  "list_all (readable L) es \<Longrightarrow> process_page L (JInt t) es [] = (None, newer_entries L t es)"
proof (induction es)
  case Nil
  show ?case by simp
next
  case (Cons e es)
  from Cons.prems have r: "readable L e" and rest: "list_all (readable L) es" by simp_all
  from rest have ih: "process_page L (JInt t) es [] = (None, newer_entries L t es)" by (rule Cons.IH)
  from r obtain d c where e: "e = JObj d" and c: "ctime_of L d = Inr c"
    by (auto simp: readable_def split: jval.splits sum.splits)
  show ?case
  proof (cases "t < c")
    case True
    have "process_page L (JInt t) es [d] = (fst (process_page L (JInt t) es []), [d] @ snd (process_page L (JInt t) es []))"
      by (rule process_page_append)
    with ih True e c show ?thesis by (simp add: newer_def)
  next
    case False
    with ih e c show ?thesis by (simp add: newer_def)
  qed
qed

lemma page_ofD:
  assumes "page_of r = Some es"
  shows "\<exists>resp d. r = Responds resp \<and> status_ok resp \<and> json resp = Some (JObj d)
           \<and> contains_error (JObj d) = Inr False \<and> trade_list (JObj d) = Inr (JArr es)"
proof (cases r)
  case (Raises e)
  with assms show ?thesis by (simp add: page_of_def)
next
  case (Responds resp)
  with assms have ok: "status_ok resp"
    by (simp add: page_of_def split: if_splits)
  with assms Responds obtain d where d: "json resp = Some (JObj d)"
    by (auto simp: page_of_def split: option.splits jval.splits)
  with assms Responds ok have ne: "''error'' \<notin> set (map fst d)"
    by (auto simp: page_of_def split: if_splits)
  with assms Responds ok d have "trade_list (JObj d) = Inr (JArr es)"
    by (auto simp: page_of_def trade_list_def split: jval.splits if_splits)
  with Responds ok d ne show ?thesis by (simp add: contains_error_def)
qed

lemma try_body_page:
  assumes "page_of r = Some es" and "es \<noteq> []"
  shows "try_body L (JInt t) trades skip r =
           (case process_page L (JInt t) es trades of
              (Some e, trades') \<Rightarrow> Fail e trades'
            | (None, trades') \<Rightarrow>
                if length es < limit then Stop trades' else Next trades' (skip + length es))"
proof -
  from page_ofD [OF assms(1)] obtain resp d where
    "r = Responds resp" "status_ok resp" "json resp = Some (JObj d)"
    "contains_error (JObj d) = Inr False" "trade_list (JObj d) = Inr (JArr es)"
    by blast
  with assms(2) show ?thesis by (simp add: try_body_def iterate_def)
qed

lemma try_body_full:
  assumes "full_page L r"
  shows "try_body L (JInt t) trades skip r =
           Next (trades @ newer_entries L t (entries_of r)) (skip + length (entries_of r))"
proof -
  from assms obtain es where p: "page_of r = Some es" and len: "limit \<le> length es"
    and rd: "list_all (readable L) es"
    by (auto simp: full_page_def split: option.splits)
  from len have ne: "es \<noteq> []" by (auto simp: limit_def)
  from rd have "process_page L (JInt t) es [] = (None, newer_entries L t es)"
    by (rule process_page_readable)
  then have "process_page L (JInt t) es trades = (None, trades @ newer_entries L t es)"
    using process_page_append [of L t es trades] by simp
  with try_body_page [OF p ne] len p show ?thesis by (simp add: entries_of_def)
qed

lemma try_body_stops:
  assumes "short_page r \<or> empty_page r \<or> remote_error r \<or> transport_failure r \<or> malformed_body r"
  shows "try_body L (JInt t) trades skip r = Stop (trades @ last_kept L t r) \<or>
         (\<exists>e. try_body L (JInt t) trades skip r = Fail e (trades @ last_kept L t r) \<and>
              handle e (bound_after b r) = None)"
proof -
  consider (short) "short_page r" | (empty) "empty_page r" | (remote) "remote_error r"
    | (transport) "transport_failure r" | (malformed) "malformed_body r \<and> \<not> short_page r"
    using assms by blast
  then show ?thesis
  proof cases
    case short
    then obtain es where p: "page_of r = Some es" and ne: "es \<noteq> []" and len: "length es < limit"
      by (auto simp: short_page_def split: option.splits)
    from page_ofD [OF p] have resp: "bound_after b r" by (auto simp: bound_after_def)
    have lk: "last_kept L t r = snd (process_page L (JInt t) es [])"
      using short p by (simp add: last_kept_def entries_of_def)
    have pp: "process_page L (JInt t) es trades =
                (fst (process_page L (JInt t) es []), trades @ last_kept L t r)"
      using process_page_append [of L t es trades] lk by simp
    show ?thesis
    proof (cases "fst (process_page L (JInt t) es [])")
      case None
      with pp try_body_page [OF p ne, of L t trades skip] len show ?thesis by simp
    next
      case (Some e)
      with pp try_body_page [OF p ne, of L t trades skip]
      have "try_body L (JInt t) trades skip r = Fail e (trades @ last_kept L t r)" by simp
      moreover from resp have "handle e (bound_after b r) = None" by (simp add: handle_def)
      ultimately show ?thesis by blast
    qed
  next
    case empty
    then have p: "page_of r = Some []" by (simp add: empty_page_def)
    then have ns: "\<not> short_page r" by (simp add: short_page_def)
    from page_ofD [OF p] obtain resp d where
      "r = Responds resp" "status_ok resp" "json resp = Some (JObj d)"
      "contains_error (JObj d) = Inr False" "trade_list (JObj d) = Inr (JArr [])"
      by blast
    then have "try_body L (JInt t) trades skip r = Stop trades" by (simp add: try_body_def)
    with ns show ?thesis by (simp add: last_kept_def)
  next
    case remote
    then obtain resp d where r: "r = Responds resp" and ok: "status_ok resp"
      and j: "json resp = Some (JObj d)" and er: "''error'' \<in> set (map fst d)"
      by (auto simp: remote_error_def split: outcome.splits option.splits jval.splits)
    then have "page_of r = None" by (simp add: page_of_def)
    then have ns: "\<not> short_page r" by (simp add: short_page_def)
    from r ok j er have "try_body L (JInt t) trades skip r = Stop trades"
      by (simp add: try_body_def contains_error_def)
    with ns show ?thesis by (simp add: last_kept_def)
  next
    case transport
    show ?thesis
    proof (cases r)
      case (Raises e)
      with transport have e: "e = ConnectionError" by (simp add: transport_failure_def)
      from Raises have "page_of r = None" by (simp add: page_of_def)
      then have ns: "\<not> short_page r" by (simp add: short_page_def)
      from Raises e have "try_body L (JInt t) trades skip r = Fail ConnectionError trades"
        by (simp add: try_body_def)
      moreover have "handle ConnectionError (bound_after b r) = None" by (simp add: handle_def)
      ultimately show ?thesis using ns by (simp add: last_kept_def)
    next
      case (Responds resp)
      with transport have bad: "\<not> status_ok resp" by (simp add: transport_failure_def)
      with Responds have "page_of r = None" by (simp add: page_of_def)
      then have ns: "\<not> short_page r" by (simp add: short_page_def)
      from Responds bad have "try_body L (JInt t) trades skip r = Fail HTTPError trades"
        by (simp add: try_body_def)
      moreover from Responds have "handle HTTPError (bound_after b r) = None"
        by (simp add: handle_def bound_after_def)
      ultimately show ?thesis using ns by (simp add: last_kept_def)
    qed
  next
    case malformed
    then obtain resp where r: "r = Responds resp" and ok: "status_ok resp"
      and j: "json resp = None"
      by (auto simp: malformed_body_def split: outcome.splits)
    then have "try_body L (JInt t) trades skip r = Fail JSONDecodeError trades"
      by (simp add: try_body_def)
    moreover from r have "handle JSONDecodeError (bound_after b r) = None"
      by (simp add: handle_def bound_after_def)
    ultimately show ?thesis using malformed by (simp add: last_kept_def)
  qed
qed

lemma fetch_loop_stops:
  assumes full: "\<forall>x \<in> set pre. full_page L (reply x)"
    and stop: "short_page (reply x) \<or> empty_page (reply x) \<or> remote_error (reply x)
                 \<or> transport_failure (reply x) \<or> malformed_body (reply x)"
  shows "\<exists>sent'. fetch_loop L self (JInt t) trades skip b sent (pre @ x # post) =
           Some (sent', Inr (trades @ concat (map (\<lambda>p. newer_entries L t (entries_of (reply p))) pre)
                               @ last_kept L t (reply x)))
         \<and> length sent' = length sent + length pre + 1"
  using full
proof (induction pre arbitrary: trades skip b sent)
  case Nil
  let ?ps = "[(''startTime'', SInt t), (''skip'', SInt (int skip)), (''limit'', SInt (int limit))]"
  obtain sg where sg: "sign_request L self (token_hex 8 (entropy x)) (str_int (clock x))
                         (Some ?ps) None = Inr sg"
    using sign_request_fetch_params by blast
  from try_body_stops [OF stop, of L t trades skip b]
  show ?case
  proof
    assume "try_body L (JInt t) trades skip (reply x) = Stop (trades @ last_kept L t (reply x))"
    with sg show ?thesis by (simp add: Let_def)
  next
    assume "\<exists>e. try_body L (JInt t) trades skip (reply x) = Fail e (trades @ last_kept L t (reply x))
               \<and> handle e (bound_after b (reply x)) = None"
    with sg show ?thesis by (auto simp: Let_def bound_after_def)
  qed
next
  case (Cons p pre)
  let ?ps = "[(''startTime'', SInt t), (''skip'', SInt (int skip)), (''limit'', SInt (int limit))]"
  obtain sg where sg: "sign_request L self (token_hex 8 (entropy p)) (str_int (clock p))
                         (Some ?ps) None = Inr sg"
    using sign_request_fetch_params by blast
  from Cons.prems have fp: "full_page L (reply p)" and rest: "\<forall>x \<in> set pre. full_page L (reply x)"
    by simp_all
  let ?tr = "trades @ newer_entries L t (entries_of (reply p))"
  let ?sk = "skip + length (entries_of (reply p))"
  let ?b = "b \<or> (case reply p of Responds _ \<Rightarrow> True | Raises _ \<Rightarrow> False)"
  let ?sent = "sent @ [build_request self (str_int (clock p)) (token_hex 8 (entropy p)) sg ?ps]"
  from fp have tb: "try_body L (JInt t) trades skip (reply p) = Next ?tr ?sk" by (rule try_body_full)
  from Cons.IH [OF rest, of ?tr ?sk ?b ?sent] obtain sent' where
    1: "fetch_loop L self (JInt t) ?tr ?sk ?b ?sent (pre @ x # post) =
          Some (sent', Inr (?tr @ concat (map (\<lambda>p. newer_entries L t (entries_of (reply p))) pre)
                               @ last_kept L t (reply x)))"
    and 2: "length sent' = length ?sent + length pre + 1"
    by blast
  from sg tb 1 have "fetch_loop L self (JInt t) trades skip b sent ((p # pre) @ x # post) =
          Some (sent', Inr (trades @ concat (map (\<lambda>p. newer_entries L t (entries_of (reply p))) (p # pre))
                               @ last_kept L t (reply x)))"
    by (simp add: Let_def)
  moreover from 2 have "length sent' = length sent + length (p # pre) + 1" by simp
  ultimately show ?case by blast
qed

text \<open>
  The exits of the loop that return. Let the replies before the one in question be
  full pages (at least \<open>limit\<close> readable entries, no error), so that the loop reaches
  it. If that reply is a page with fewer than \<open>limit\<close> entries, an empty page, a payload
  with an \<^verbatim>\<open>error\<close> key, a connection error raised by the request, a reply with a bad
  HTTP status or a body that is not JSON, then \<open>fetch_trades\<close> returns (it neither
  runs on nor raises), and what it returns is what it has accumulated: the newer
  entries of the full pages and, from a short page, the entries appended before the
  loop ended. It has sent one request per reply consumed.
\<close>

lemma fetch_trades_stops_with_accumulated:
  assumes "\<forall>p \<in> set pre. full_page L (reply p)"
    and "short_page (reply x) \<or> empty_page (reply x) \<or> remote_error (reply x)
           \<or> transport_failure (reply x) \<or> malformed_body (reply x)"
  shows "\<exists>sent. fetch_trades L self t (pre @ x # post) =
           Some (sent, Inr (concat (map (\<lambda>p. newer_entries L t (entries_of (reply p))) pre)
                             @ last_kept L t (reply x)))
         \<and> length sent = length pre + 1"
  using fetch_loop_stops [OF assms, of self t "[]" 0 False "[]" post]
  by (simp add: fetch_trades_def fetch_trades_any_def)

lemma fetch_trades_stops_with_accumulated_example:
  "full_page example_lib (reply (example_exchange (page_reply full_example_page)))
   \<and> short_page (reply (example_exchange (page_reply example_page)))
   \<and> (\<exists>sent.
         fetch_trades example_lib example_client 1700000000000
           ([example_exchange (page_reply full_example_page)]
              @ example_exchange (page_reply example_page) # [])
           = Some (sent,
               Inr (replicate 100 [(''ctime'', JInt 1700000000500)]
                    @ [[(''ctime'', JInt 1700000086400), (''symbol'', JStr ''SOLUSDT'')],
                       [(''ctime'', JInt 1700000000001), (''symbol'', JStr ''BTCUSDT''),
                        (''side'', JStr ''buy''), (''qty'', JStr ''0.5''),
                        (''price'', JStr ''37000''), (''fee'', JStr ''0.01'')]]))
         \<and> length sent = 2)"
proof -
  have f: "full_page example_lib (reply (example_exchange (page_reply full_example_page)))"
    by code_simp
  have sp: "short_page (reply (example_exchange (page_reply example_page)))"
    by code_simp
  from f have h1: "\<forall>p \<in> set [example_exchange (page_reply full_example_page)].
              full_page example_lib (reply p)"
    by simp
  from sp have h2: "short_page (reply (example_exchange (page_reply example_page)))
        \<or> empty_page (reply (example_exchange (page_reply example_page)))
        \<or> remote_error (reply (example_exchange (page_reply example_page)))
        \<or> transport_failure (reply (example_exchange (page_reply example_page)))
        \<or> malformed_body (reply (example_exchange (page_reply example_page)))"
    by simp
  have v: "concat (map (\<lambda>p. newer_entries example_lib 1700000000000 (entries_of (reply p)))
                     [example_exchange (page_reply full_example_page)])
             @ last_kept example_lib 1700000000000
                 (reply (example_exchange (page_reply example_page)))
           = replicate 100 [(''ctime'', JInt 1700000000500)]
                    @ [[(''ctime'', JInt 1700000086400), (''symbol'', JStr ''SOLUSDT'')],
                       [(''ctime'', JInt 1700000000001), (''symbol'', JStr ''BTCUSDT''),
                        (''side'', JStr ''buy''), (''qty'', JStr ''0.5''),
                        (''price'', JStr ''37000''), (''fee'', JStr ''0.01'')]]"
    by code_simp
  from fetch_trades_stops_with_accumulated [OF h1 h2, of example_client 1700000000000 "[]"]
  obtain sent where
    s: "fetch_trades example_lib example_client 1700000000000
          ([example_exchange (page_reply full_example_page)]
             @ example_exchange (page_reply example_page) # [])
        = Some (sent,
            Inr (concat (map (\<lambda>p. newer_entries example_lib 1700000000000 (entries_of (reply p)))
                     [example_exchange (page_reply full_example_page)])
                 @ last_kept example_lib 1700000000000
                     (reply (example_exchange (page_reply example_page)))))"
    and l: "length sent = length [example_exchange (page_reply full_example_page)] + 1"
    by blast
  from l have "length sent = 2" by simp
  with s [unfolded v] f sp show ?thesis by blast
qed

text \<open>
  Claim C4 fails for one kind of transport failure. When \<^verbatim>\<open>session.get\<close> itself raises
  an exception of the \<^verbatim>\<open>ValueError\<close> family on the first pass of the loop
  (\<^verbatim>\<open>requests.exceptions.InvalidHeader\<close>, as for an API key that ends in a newline),
  the handler \<^verbatim>\<open>except ValueError\<close> logs \<^verbatim>\<open>resp.text\<close> while \<^verbatim>\<open>resp\<close> has never been
  bound: \<open>fetch_trades\<close> raises \<^verbatim>\<open>UnboundLocalError\<close> where the claim has it return the
  empty list accumulated so far. This is so for every checkpoint, client, clock and
  nonce, and whatever replies would follow. A connection error at the same place goes
  to the last handler, which does not read \<^verbatim>\<open>resp\<close>, and the empty list is returned.
\<close>

theorem fetch_trades_raises_when_first_get_raises_ValueError:
  "returned (fetch_trades L self t
               (\<lparr>clock = c, entropy = rnd, reply = Raises InvalidHeader\<rparr> # post))
     = Some (Inl UnboundLocalError)
   \<and> returned (fetch_trades L self t
                 (\<lparr>clock = c, entropy = rnd, reply = Raises ConnectionError\<rparr> # post))
       = Some (Inr [])"
proof -
  obtain sg where "sign_request L self (token_hex 8 rnd) (str_int c)
      (Some [(''startTime'', SInt t), (''skip'', SInt (int 0)), (''limit'', SInt (int limit))])
      None = Inr sg"
    using sign_request_fetch_params by blast
  then show ?thesis
    by (simp add: returned_def fetch_trades_def fetch_trades_any_def Let_def try_body_def
          handle_def)
qed

theorem fetch_trades_raises_when_first_get_raises_ValueError_witness:
  "returned (fetch_trades example_lib example_client 1700000000000
               [example_exchange (Raises InvalidHeader)])
     = Some (Inl UnboundLocalError)"
  using fetch_trades_raises_when_first_get_raises_ValueError
          [of example_lib example_client 1700000000000 1700000100000 "\<lambda>i. 16 * i + 7" "[]"]
  by (simp add: example_exchange_def)

section \<open>Properties of the checkpoint store\<close>

lemma state_file_not_credentials_file: "STATE_FILE \<noteq> CREDENTIALS_FILE"
  by (simp add: STATE_FILE_def CREDENTIALS_FILE_def)

text \<open>
  Claim C10. When the state file exists and holds a JSON object without a
  \<^verbatim>\<open>last_time\<close> entry, \<open>load_state\<close> returns 0; and whenever the state file exists,
  what \<open>load_state\<close> returns does not depend on the configuration file at all: the
  configured \<^verbatim>\<open>start_time\<close> is only looked at when there is no state file.
\<close>

theorem load_state_ignores_config_when_state_file_exists:
  "(fs STATE_FILE = Some (Json (JObj d)) \<and> map_of d ''last_time'' = None
      \<longrightarrow> load_state L fs = Inr (JInt 0))
   \<and> (fs STATE_FILE \<noteq> None
      \<longrightarrow> load_state L (fs(CREDENTIALS_FILE := cfg)) = load_state L fs)"
proof (intro conjI impI)
  assume "fs STATE_FILE = Some (Json (JObj d)) \<and> map_of d ''last_time'' = None"
  then show "load_state L fs = Inr (JInt 0)"
    by (simp add: load_state_def json_load_def get_attr_def dict_get_def)
next
  assume "fs STATE_FILE \<noteq> None"
  then obtain c where "fs STATE_FILE = Some c" by auto
  then show "load_state L (fs(CREDENTIALS_FILE := cfg)) = load_state L fs"
    using state_file_not_credentials_file by (simp add: load_state_def)
qed

theorem load_state_ignores_config_when_state_file_exists_witness:
  "files_with_empty_state STATE_FILE = Some (Json (JObj [])) \<and> map_of [] ''last_time'' = None
   \<and> load_state example_lib files_with_empty_state = Inr (JInt 0)
   \<and> files_with_empty_state STATE_FILE \<noteq> None
   \<and> load_state example_lib (files_with_empty_state(CREDENTIALS_FILE := None))
       = load_state example_lib files_with_empty_state"
proof -
  have h: "files_with_empty_state STATE_FILE = Some (Json (JObj []))"
    by (simp add: files_with_empty_state_def)
  have m: "map_of ([] :: dict) ''last_time'' = None" by simp
  from h have n: "files_with_empty_state STATE_FILE \<noteq> None" by simp
  from load_state_ignores_config_when_state_file_exists
         [of files_with_empty_state "[]" example_lib None] h m n
  show ?thesis by simp
qed

text \<open>
  Claim C6, as stated, sends \<open>load_state\<close> to the configured \<^verbatim>\<open>start_time\<close> whenever
  no checkpoint is persisted. Here the state file exists but holds no \<^verbatim>\<open>last_time\<close>,
  the configuration holds a well-formed ISO-8601 \<^verbatim>\<open>start_time\<close>, and \<open>load_state\<close>
  returns 0 instead of that instant.
\<close>

theorem load_state_config_fallback_counterexample:
  "files_with_empty_state STATE_FILE = Some (Json (JObj []))
   \<and> files_with_empty_state CREDENTIALS_FILE = Some example_credentials
   \<and> parse_start_time example_lib (JStr ''2024-01-01T00:00:00Z'') = Inr 1704067200000
   \<and> load_state example_lib files_with_empty_state = Inr (JInt 0)"
  by code_simp

text \<open>
  Claim C6, amended. When the state file exists (and holds a JSON object),
  \<open>load_state\<close> returns its \<^verbatim>\<open>last_time\<close> entry, or 0 when it has none. When there is
  no state file and the configuration holds a non-empty string \<^verbatim>\<open>start_time\<close>, it
  returns that instant in milliseconds, and raises \<^verbatim>\<open>ValueError\<close> exactly when
  \<^verbatim>\<open>fromisoformat\<close> rejects the string. When there is no state file and either no
  configuration file or no truthy \<^verbatim>\<open>start_time\<close> in it, it returns 0.
\<close>

theorem load_state_cases:
  "(fs STATE_FILE = Some (Json (JObj d))
      \<longrightarrow> load_state L fs = Inr (dict_get d ''last_time'' (JInt 0)))
   \<and> (fs STATE_FILE = None \<and> fs CREDENTIALS_FILE = Some (Json (JObj cfg))
        \<and> map_of cfg ''start_time'' = Some (JStr s) \<and> s \<noteq> []
      \<longrightarrow> load_state L fs =
            (case isoformat_ms L (replace_Z s) of
               Some ms \<Rightarrow> Inr (JInt ms) | None \<Rightarrow> Inl ValueError))
   \<and> (fs STATE_FILE = None
        \<and> (fs CREDENTIALS_FILE = None
           \<or> fs CREDENTIALS_FILE = Some (Json (JObj cfg))
             \<and> \<not> truthy (dict_get cfg ''start_time'' JNull))
      \<longrightarrow> load_state L fs = Inr (JInt 0))"
proof (intro conjI impI)
  assume "fs STATE_FILE = Some (Json (JObj d))"
  then show "load_state L fs = Inr (dict_get d ''last_time'' (JInt 0))"
    by (simp add: load_state_def json_load_def get_attr_def)
next
  assume "fs STATE_FILE = None \<and> fs CREDENTIALS_FILE = Some (Json (JObj cfg))
        \<and> map_of cfg ''start_time'' = Some (JStr s) \<and> s \<noteq> []"
  then show "load_state L fs =
            (case isoformat_ms L (replace_Z s) of
               Some ms \<Rightarrow> Inr (JInt ms) | None \<Rightarrow> Inl ValueError)"
    by (simp add: load_state_def json_load_def get_attr_def dict_get_def parse_start_time_def
             split: option.splits)
next
  assume "fs STATE_FILE = None
        \<and> (fs CREDENTIALS_FILE = None
           \<or> fs CREDENTIALS_FILE = Some (Json (JObj cfg))
             \<and> \<not> truthy (dict_get cfg ''start_time'' JNull))"
  then show "load_state L fs = Inr (JInt 0)"
    by (auto simp: load_state_def json_load_def get_attr_def)
qed

theorem load_state_cases_witness:
  "files_with_state 1700000086400 STATE_FILE
     = Some (Json (JObj [(''last_time'', JInt 1700000086400)]))
   \<and> load_state example_lib (files_with_state 1700000086400) = Inr (JInt 1700000086400)
   \<and> files_without_state STATE_FILE = None
   \<and> load_state example_lib files_without_state = Inr (JInt 1704067200000)
   \<and> files_with_bad_start_time STATE_FILE = None
   \<and> load_state example_lib files_with_bad_start_time = Inl ValueError
   \<and> (Map.empty :: files) STATE_FILE = None \<and> (Map.empty :: files) CREDENTIALS_FILE = None
   \<and> load_state example_lib Map.empty = Inr (JInt 0)"
proof -
  have a: "files_with_state 1700000086400 STATE_FILE
             = Some (Json (JObj [(''last_time'', JInt 1700000086400)]))"
    by (simp add: files_with_state_def)
  have b: "files_without_state STATE_FILE = None
           \<and> files_without_state CREDENTIALS_FILE
               = Some (Json (JObj [(''api_key'', JStr ''K''), (''secret_key'', JStr ''S''),
                                   (''start_time'', JStr ''2024-01-01T00:00:00Z'')]))
           \<and> map_of [(''api_key'', JStr ''K''), (''secret_key'', JStr ''S''),
                      (''start_time'', JStr ''2024-01-01T00:00:00Z'')] ''start_time''
               = Some (JStr ''2024-01-01T00:00:00Z'')
           \<and> ''2024-01-01T00:00:00Z'' \<noteq> []"
    by (simp add: files_without_state_def example_credentials_def STATE_FILE_def
                  CREDENTIALS_FILE_def)
  have c: "files_with_bad_start_time STATE_FILE = None
           \<and> files_with_bad_start_time CREDENTIALS_FILE
               = Some (Json (JObj [(''start_time'', JStr ''yesterday'')]))
           \<and> map_of [(''start_time'', JStr ''yesterday'')] ''start_time''
               = Some (JStr ''yesterday'')
           \<and> ''yesterday'' \<noteq> []"
    by (simp add: files_with_bad_start_time_def STATE_FILE_def CREDENTIALS_FILE_def)
  have d: "(Map.empty :: files) STATE_FILE = None \<and> (Map.empty :: files) CREDENTIALS_FILE = None"
    by simp
  from load_state_cases [of "files_with_state 1700000086400"
         "[(''last_time'', JInt 1700000086400)]" example_lib "[]" "[]"] a
  have 1: "load_state example_lib (files_with_state 1700000086400) = Inr (JInt 1700000086400)"
    by (simp add: dict_get_def)
  from load_state_cases [of files_without_state "[]" example_lib
         "[(''api_key'', JStr ''K''), (''secret_key'', JStr ''S''),
           (''start_time'', JStr ''2024-01-01T00:00:00Z'')]" "''2024-01-01T00:00:00Z''"] b
  have 2: "load_state example_lib files_without_state = Inr (JInt 1704067200000)"
    by (simp add: example_lib_def)
  from load_state_cases [of files_with_bad_start_time "[]" example_lib
         "[(''start_time'', JStr ''yesterday'')]" "''yesterday''"] c
  have 3: "load_state example_lib files_with_bad_start_time = Inl ValueError"
    by (simp add: example_lib_def)
  from load_state_cases [of Map.empty "[]" example_lib "[]" "[]"] d
  have 4: "load_state example_lib Map.empty = Inr (JInt 0)" by simp
  from a b c d 1 2 3 4 show ?thesis by simp
qed

section \<open>Properties of the normalizer\<close>

lemma sequence_map_Inr:
  "\<forall>x \<in> set xs. f x = Inr (g x) \<Longrightarrow> sequence (map f xs) = Inr (map g xs)"
  by (induction xs) simp_all

lemma insort_key_decorated:
  "insort_key fst (f x, x) (map (\<lambda>y. (f y, y)) ys) = map (\<lambda>y. (f y, y)) (insort_key f x ys)"
  by (induction ys) simp_all

lemma sort_key_decorated:
  "map snd (sort_key fst (zip (map f xs) xs)) = sort_key f xs"
proof -
  have z: "zip (map f xs) xs = map (\<lambda>y. (f y, y)) xs" by (induction xs) simp_all
  have "sort_key fst (map (\<lambda>y. (f y, y)) xs) = map (\<lambda>y. (f y, y)) (sort_key f xs)"
    by (induction xs) (simp_all add: insort_key_decorated)
  with z have "map snd (sort_key fst (zip (map f xs) xs))
                 = map snd (map (\<lambda>y. (f y, y)) (sort_key f xs))" by simp
  also have "\<dots> = sort_key f xs" by (simp add: comp_def)
  finally show ?thesis .
qed

lemma exportable_ctime: "exportable L tr \<Longrightarrow> ctime_of L tr = Inr (ctime_key L tr)"
  by (auto simp: exportable_def ctime_key_def split: sum.splits)

lemma sorted_by_ctime_exportable:
  assumes "\<forall>tr \<in> set trades. exportable L tr"
  shows "sorted_by_ctime L trades = Inr (sort_key (ctime_key L) trades)"
proof -
  from assms have "\<forall>tr \<in> set trades. ctime_of L tr = Inr (ctime_key L tr)"
    by (simp add: exportable_ctime)
  then have "sequence (map (ctime_of L) trades) = Inr (map (ctime_key L) trades)"
    by (rule sequence_map_Inr)
  then show ?thesis by (simp add: sorted_by_ctime_def sort_key_decorated)
qed

lemma row_of_exportable: "exportable L tr \<Longrightarrow> \<exists>r. row_of L tr = Inr r"
  by (auto simp: exportable_def row_of_def dict_get_def py_upper_def
           split: sum.splits option.splits jval.splits)

lemma sequence_total:
  "\<forall>x \<in> set xs. \<exists>r. f x = Inr r \<Longrightarrow>
   \<exists>rs. sequence (map f xs) = Inr rs \<and> list_all2 (\<lambda>x r. f x = Inr r) xs rs"
proof (induction xs)
  case Nil
  show ?case by simp
next
  case (Cons x xs)
  from Cons.prems obtain r where r: "f x = Inr r" by auto
  from Cons.prems have "\<forall>x \<in> set xs. \<exists>r. f x = Inr r" by simp
  from Cons.IH [OF this] obtain rs where "sequence (map f xs) = Inr rs"
    "list_all2 (\<lambda>x r. f x = Inr r) xs rs" by blast
  with r have "sequence (map f (x # xs)) = Inr (r # rs) \<and>
               list_all2 (\<lambda>x r. f x = Inr r) (x # xs) (r # rs)" by simp
  then show ?case by blast
qed

lemma epoch_date: "fromtimestamp_utc 0 = Inr \<lparr>year = 1970, month = 1, day = 1, hour = 0, minute = 0, second = 0\<rparr>"
  by code_simp

lemma epoch_strings:
  "date_str \<lparr>year = 1970, month = 1, day = 1, hour = 0, minute = 0, second = 0\<rparr> = ''1/1/70''"
  "time_str \<lparr>year = 1970, month = 1, day = 1, hour = 0, minute = 0, second = 0\<rparr> = ''00:00:00''"
  by code_simp+

lemma row_of_fields:
  assumes "row_of L tr = Inr r"
  shows "(map_of tr ''symbol'' = None \<longrightarrow> Symbol r = JStr [])
       \<and> (map_of tr ''side'' = None \<longrightarrow> Buy_Sell r = [])
       \<and> (map_of tr ''qty'' = None \<longrightarrow> Quantity r = JStr [])
       \<and> (map_of tr ''price'' = None \<longrightarrow> Price r = JStr [])
       \<and> (map_of tr ''fee'' = None \<longrightarrow> Commission r = JStr [])
       \<and> (map_of tr ''ctime'' = None \<longrightarrow> Date r = ''1/1/70'' \<and> Time r = ''00:00:00'')
       \<and> Spread r = ''Crypto'' \<and> Expiration r = [] \<and> Strike r = [] \<and> Call_Put r = []
       \<and> Fees r = []"
proof -
  from assms obtain c dt side where c: "ctime_of L tr = Inr c"
    and dt: "fromtimestamp_utc c = Inr dt"
    and side: "py_upper L (dict_get tr ''side'' (JStr [])) = Inr side"
    and r: "r = \<lparr>Date = date_str dt, Time = time_str dt,
                 Symbol = dict_get tr ''symbol'' (JStr []),
                 Buy_Sell = side,
                 Quantity = dict_get tr ''qty'' (JStr []),
                 Price = dict_get tr ''price'' (JStr []),
                 Spread = ''Crypto'', Expiration = [], Strike = [], Call_Put = [],
                 Commission = dict_get tr ''fee'' (JStr []),
                 Fees = []\<rparr>"
    by (auto simp: row_of_def split: sum.splits)
  have d: "Date r = ''1/1/70'' \<and> Time r = ''00:00:00''" if "map_of tr ''ctime'' = None"
  proof -
    from that c have "c = 0" by (simp add: ctime_of_def dict_get_def py_int_def)
    with dt have "dt = \<lparr>year = 1970, month = 1, day = 1, hour = 0, minute = 0, second = 0\<rparr>"
      by (simp add: epoch_date)
    with r show ?thesis by (simp add: epoch_strings)
  qed
  have s: "Buy_Sell r = []" if "map_of tr ''side'' = None"
    using that side r by (simp add: dict_get_def py_upper_def)
  from r d s show ?thesis by (simp add: dict_get_def)
qed

text \<open>
  Claim C9, as stated, makes \<open>transform_trades\<close> total and maps every missing field to
  a blank. A record whose timestamp lies in the year 10000 makes it raise, and a record
  without \<^verbatim>\<open>ctime\<close> gets the date and time of the epoch, not blanks.
\<close>

theorem transform_trades_total_blank_counterexample:
  "transform_trades example_lib [[(''ctime'', JInt 253402300800000), (''symbol'', JStr ''BTCUSDT'')]]
     = Inl ValueError
   \<and> transform_trades example_lib [[(''symbol'', JStr ''BTCUSDT'')]]
     = Inr [\<lparr>Date = ''1/1/70'', Time = ''00:00:00'', Symbol = JStr ''BTCUSDT'', Buy_Sell = [],
             Quantity = JStr [], Price = JStr [], Spread = ''Crypto'', Expiration = [],
             Strike = [], Call_Put = [], Commission = JStr [], Fees = []\<rparr>]"
  by code_simp

text \<open>
  Claim C9, amended. For every list of records that are exportable (the timestamp
  converts to an \<^verbatim>\<open>int\<close> whose UTC year is from 1 to 9999, and \<^verbatim>\<open>side\<close> is a string
  when present), \<open>transform_trades\<close> returns one row per record; the rows are those of
  the records sorted stably by creation timestamp, ascending, whatever the input order;
  a missing \<^verbatim>\<open>symbol\<close>, \<^verbatim>\<open>side\<close>, \<^verbatim>\<open>qty\<close>, \<^verbatim>\<open>price\<close> or \<^verbatim>\<open>fee\<close> gives an empty field,
  and a missing \<^verbatim>\<open>ctime\<close> gives the date \<^verbatim>\<open>1/1/70\<close> and the time \<^verbatim>\<open>00:00:00\<close>.
\<close>

theorem transform_trades_rows:
  assumes "\<forall>tr \<in> set trades. exportable L tr"
  shows "\<exists>rows ordered.
           transform_trades L trades = Inr rows
           \<and> length rows = length trades
           \<and> ordered = sort_key (ctime_key L) trades
           \<and> mset ordered = mset trades
           \<and> sorted (map (ctime_key L) ordered)
           \<and> list_all2 (\<lambda>tr r. row_of L tr = Inr r) ordered rows
           \<and> (\<forall>i < length rows.
                 (map_of (ordered ! i) ''symbol'' = None \<longrightarrow> Symbol (rows ! i) = JStr [])
               \<and> (map_of (ordered ! i) ''side'' = None \<longrightarrow> Buy_Sell (rows ! i) = [])
               \<and> (map_of (ordered ! i) ''qty'' = None \<longrightarrow> Quantity (rows ! i) = JStr [])
               \<and> (map_of (ordered ! i) ''price'' = None \<longrightarrow> Price (rows ! i) = JStr [])
               \<and> (map_of (ordered ! i) ''fee'' = None \<longrightarrow> Commission (rows ! i) = JStr [])
               \<and> (map_of (ordered ! i) ''ctime'' = None \<longrightarrow>
                    Date (rows ! i) = ''1/1/70'' \<and> Time (rows ! i) = ''00:00:00''))"
proof -
  let ?ordered = "sort_key (ctime_key L) trades"
  from assms have srt: "sorted_by_ctime L trades = Inr ?ordered"
    by (rule sorted_by_ctime_exportable)
  from assms have "\<forall>tr \<in> set ?ordered. \<exists>r. row_of L tr = Inr r"
    by (simp add: row_of_exportable)
  from sequence_total [OF this] obtain rows where
    sq: "sequence (map (row_of L) ?ordered) = Inr rows"
    and all2: "list_all2 (\<lambda>tr r. row_of L tr = Inr r) ?ordered rows"
    by blast
  from srt sq have tt: "transform_trades L trades = Inr rows"
    by (simp add: transform_trades_def)
  from all2 have "length ?ordered = length rows" by (rule list_all2_lengthD)
  then have len: "length rows = length trades" by simp
  have fields: "(map_of (?ordered ! i) ''symbol'' = None \<longrightarrow> Symbol (rows ! i) = JStr [])
               \<and> (map_of (?ordered ! i) ''side'' = None \<longrightarrow> Buy_Sell (rows ! i) = [])
               \<and> (map_of (?ordered ! i) ''qty'' = None \<longrightarrow> Quantity (rows ! i) = JStr [])
               \<and> (map_of (?ordered ! i) ''price'' = None \<longrightarrow> Price (rows ! i) = JStr [])
               \<and> (map_of (?ordered ! i) ''fee'' = None \<longrightarrow> Commission (rows ! i) = JStr [])
               \<and> (map_of (?ordered ! i) ''ctime'' = None \<longrightarrow>
                    Date (rows ! i) = ''1/1/70'' \<and> Time (rows ! i) = ''00:00:00'')"
    if "i < length rows" for i
  proof -
    from all2 that have "row_of L (?ordered ! i) = Inr (rows ! i)"
      by (simp add: list_all2_conv_all_nth)
    from row_of_fields [OF this] show ?thesis by blast
  qed
  have "mset ?ordered = mset trades" by simp
  moreover have "sorted (map (ctime_key L) ?ordered)" by simp
  ultimately show ?thesis using tt len all2 fields by blast
qed

theorem transform_trades_rows_witness:
  "list_all (exportable example_lib) example_trades
   \<and> transform_trades example_lib example_trades
       = Inr [\<lparr>Date = ''1/1/70'', Time = ''00:00:00'', Symbol = JStr ''ETHUSDT'',
               Buy_Sell = ''SELL'', Quantity = JStr [], Price = JStr [], Spread = ''Crypto'',
               Expiration = [], Strike = [], Call_Put = [], Commission = JStr [], Fees = []\<rparr>,
              \<lparr>Date = ''11/14/23'', Time = ''22:13:20'', Symbol = JStr ''BTCUSDT'',
               Buy_Sell = ''BUY'', Quantity = JStr ''0.5'', Price = JStr ''37000'',
               Spread = ''Crypto'', Expiration = [], Strike = [], Call_Put = [],
               Commission = JStr ''0.01'', Fees = []\<rparr>,
              \<lparr>Date = ''11/14/23'', Time = ''22:14:46'', Symbol = JStr ''SOLUSDT'',
               Buy_Sell = [], Quantity = JStr [], Price = JStr [], Spread = ''Crypto'',
               Expiration = [], Strike = [], Call_Put = [], Commission = JStr [], Fees = []\<rparr>]
   \<and> (\<exists>rows ordered.
           transform_trades example_lib example_trades = Inr rows
           \<and> length rows = length example_trades
           \<and> ordered = sort_key (ctime_key example_lib) example_trades
           \<and> mset ordered = mset example_trades
           \<and> sorted (map (ctime_key example_lib) ordered)
           \<and> list_all2 (\<lambda>tr r. row_of example_lib tr = Inr r) ordered rows
           \<and> (\<forall>i < length rows.
                 (map_of (ordered ! i) ''symbol'' = None \<longrightarrow> Symbol (rows ! i) = JStr [])
               \<and> (map_of (ordered ! i) ''side'' = None \<longrightarrow> Buy_Sell (rows ! i) = [])
               \<and> (map_of (ordered ! i) ''qty'' = None \<longrightarrow> Quantity (rows ! i) = JStr [])
               \<and> (map_of (ordered ! i) ''price'' = None \<longrightarrow> Price (rows ! i) = JStr [])
               \<and> (map_of (ordered ! i) ''fee'' = None \<longrightarrow> Commission (rows ! i) = JStr [])
               \<and> (map_of (ordered ! i) ''ctime'' = None \<longrightarrow>
                    Date (rows ! i) = ''1/1/70'' \<and> Time (rows ! i) = ''00:00:00'')))"
proof -
  have e: "list_all (exportable example_lib) example_trades" by code_simp
  then have h: "\<forall>tr \<in> set example_trades. exportable example_lib tr"
    by (simp only: list_all_iff)
  have v: "transform_trades example_lib example_trades
       = Inr [\<lparr>Date = ''1/1/70'', Time = ''00:00:00'', Symbol = JStr ''ETHUSDT'',
               Buy_Sell = ''SELL'', Quantity = JStr [], Price = JStr [], Spread = ''Crypto'',
               Expiration = [], Strike = [], Call_Put = [], Commission = JStr [], Fees = []\<rparr>,
              \<lparr>Date = ''11/14/23'', Time = ''22:13:20'', Symbol = JStr ''BTCUSDT'',
               Buy_Sell = ''BUY'', Quantity = JStr ''0.5'', Price = JStr ''37000'',
               Spread = ''Crypto'', Expiration = [], Strike = [], Call_Put = [],
               Commission = JStr ''0.01'', Fees = []\<rparr>,
              \<lparr>Date = ''11/14/23'', Time = ''22:14:46'', Symbol = JStr ''SOLUSDT'',
               Buy_Sell = [], Quantity = JStr [], Price = JStr [], Spread = ''Crypto'',
               Expiration = [], Strike = [], Call_Put = [], Commission = JStr [], Fees = []\<rparr>]"
    by code_simp
  note c = transform_trades_rows [OF h]
  from e v c show ?thesis by (intro conjI)
qed

section \<open>Properties of the orchestrator\<close>

text \<open>
  Claim C8. In a run in which \<open>fetch_trades\<close> returns the empty list, \<open>main\<close> ends
  with the files exactly as they were: no output file is written and the state file is
  untouched.
\<close>

theorem main_no_new_trades_leaves_files:
  assumes "load_credentials fs = Inr (JStr k, JStr s)"
    and "new_client k s = Inr self"
    and "load_state L fs = Inr (JInt t)"
    and "fetch_trades L self t xs = Some (sent, Inr [])"
  shows "main L args xs fs = Some (fs, No_New_Trades)"
  using assms by (simp add: main_def main_body_def fetch_trades_def)

theorem main_no_new_trades_leaves_files_witness:
  "load_credentials (files_with_state 1700000086400) = Inr (JStr ''K'', JStr ''S'')
   \<and> new_client ''K'' ''S'' = Inr example_client
   \<and> load_state example_lib (files_with_state 1700000086400) = Inr (JInt 1700000086400)
   \<and> returned (fetch_trades example_lib example_client 1700000086400
                  [example_exchange (page_reply example_page)]) = Some (Inr [])
   \<and> main example_lib example_args [example_exchange (page_reply example_page)]
        (files_with_state 1700000086400)
       = Some (files_with_state 1700000086400, No_New_Trades)"
proof -
  have h1: "load_credentials (files_with_state 1700000086400) = Inr (JStr ''K'', JStr ''S'')"
    by code_simp
  have h2: "new_client ''K'' ''S'' = Inr example_client" by code_simp
  have h3: "load_state example_lib (files_with_state 1700000086400) = Inr (JInt 1700000086400)"
    by code_simp
  have h4: "returned (fetch_trades example_lib example_client 1700000086400
                  [example_exchange (page_reply example_page)]) = Some (Inr [])"
    by code_simp
  then obtain sent where
    "fetch_trades example_lib example_client 1700000086400
       [example_exchange (page_reply example_page)] = Some (sent, Inr [])"
    by (auto simp: returned_def)
  from main_no_new_trades_leaves_files [OF h1 h2 h3 this, of example_args] h1 h2 h3 h4
  show ?thesis by blast
qed

lemma sequence_Inr:
  "sequence rs = Inr vs \<Longrightarrow> rs = map Inr vs"
proof (induction rs arbitrary: vs)
  case Nil
  then show ?case by simp
next
  case (Cons r rs)
  then show ?case by (auto split: sum.splits)
qed

lemma py_max_greatest:
  assumes "py_max ns = Inr m"
  shows "m \<in> set ns \<and> (\<forall>n \<in> set ns. n \<le> m)"
proof -
  from assms obtain n rest where ns: "ns = n # rest" and m: "m = fold max rest n"
    by (auto simp: py_max_def split: list.splits)
  from m have "m = Max (set (n # rest))" by (simp only: Max.set_eq_fold)
  moreover have "Max (set (n # rest)) \<in> set (n # rest)" by (rule Max_in) simp_all
  moreover have "\<forall>x \<in> set (n # rest). x \<le> Max (set (n # rest))" by simp
  ultimately show ?thesis using ns by simp
qed

lemma index_ctime:
  assumes "(case dict_index tr ''ctime'' of Inl e \<Rightarrow> Inl e | Inr v \<Rightarrow> py_int L v) = Inr c"
  shows "ctime_of L tr = Inr c"
  using assms
  by (auto simp: dict_index_def ctime_of_def dict_get_def split: option.splits)

lemma latest_ctime_greatest:
  assumes "latest_ctime L trades = Inr m"
  shows "(\<exists>tr \<in> set trades. ctime_of L tr = Inr m) \<and>
         (\<forall>tr \<in> set trades. \<exists>c. ctime_of L tr = Inr c \<and> c \<le> m)"
proof -
  let ?f = "\<lambda>t. case dict_index t ''ctime'' of Inl e \<Rightarrow> Inl e | Inr v \<Rightarrow> py_int L v"
  from assms obtain ns where sq: "sequence (map ?f trades) = Inr ns" and mx: "py_max ns = Inr m"
    by (auto simp: latest_ctime_def split: sum.splits)
  from sq have eq: "map ?f trades = map Inr ns" by (rule sequence_Inr)
  then have len: "length trades = length ns" by (metis length_map)
  have at: "ctime_of L (trades ! i) = Inr (ns ! i)" if "i < length trades" for i
  proof -
    from that have "?f (trades ! i) = map ?f trades ! i" by simp
    also from that len have "\<dots> = Inr (ns ! i)" by (simp add: eq)
    finally show ?thesis by (rule index_ctime)
  qed
  from py_max_greatest [OF mx] have mem: "m \<in> set ns" and ub: "\<forall>n \<in> set ns. n \<le> m"
    by simp_all
  from mem obtain i where i: "i < length ns" "ns ! i = m" by (auto simp: in_set_conv_nth)
  with len at [of i] have "trades ! i \<in> set trades \<and> ctime_of L (trades ! i) = Inr m" by simp
  then have 1: "\<exists>tr \<in> set trades. ctime_of L tr = Inr m" by blast
  have 2: "\<forall>tr \<in> set trades. \<exists>c. ctime_of L tr = Inr c \<and> c \<le> m"
  proof
    fix tr assume "tr \<in> set trades"
    then obtain j where j: "j < length trades" "trades ! j = tr" by (auto simp: in_set_conv_nth)
    with at [of j] have "ctime_of L tr = Inr (ns ! j)" by simp
    moreover from j len ub have "ns ! j \<le> m" by simp
    ultimately show "\<exists>c. ctime_of L tr = Inr c \<and> c \<le> m" by blast
  qed
  from 1 2 show ?thesis by blast
qed

lemma transform_trades_length:
  assumes "transform_trades L trades = Inr rows"
  shows "length rows = length trades"
proof -
  from assms obtain ordered where o: "sorted_by_ctime L trades = Inr ordered"
    and r: "sequence (map (row_of L) ordered) = Inr rows"
    by (auto simp: transform_trades_def split: sum.splits)
  from o obtain keys where k: "sequence (map (ctime_of L) trades) = Inr keys"
    and ord: "ordered = map snd (sort_key fst (zip keys trades))"
    by (auto simp: sorted_by_ctime_def split: sum.splits)
  from k have "map (ctime_of L) trades = map Inr keys" by (rule sequence_Inr)
  then have "length trades = length keys" by (metis length_map)
  with ord have 1: "length ordered = length trades" by simp
  from r have "map (row_of L) ordered = map Inr rows" by (rule sequence_Inr)
  then have "length ordered = length rows" by (metis length_map)
  with 1 show ?thesis by simp
qed

lemma main_Exported:
  assumes "main L args xs fs = Some (fs', Exported)"
  shows "\<exists>k s. load_credentials fs = Inr (JStr k, JStr s)
           \<and> main_body L \<lparr>api_key = k, api_secret = s\<rparr> args xs fs = Some (fs', Exported)"
proof (cases "load_credentials fs")
  case (Inl e)
  with assms show ?thesis by (simp add: main_def)
next
  case (Inr p)
  obtain a b where p: "p = (a, b)" by (cases p)
  from assms Inr p obtain k s where a: "a = JStr k" and b: "b = JStr s"
    by (cases a; cases b) (simp_all add: main_def)
  from assms Inr p a b show ?thesis
    by (auto simp: main_def new_client_def split: if_splits)
qed

text \<open>
  Claim C3. When a run of \<open>main\<close> ends with \<open>Exported\<close>, it went as follows. The
  credentials are two strings, and the client built from them fetched a non-empty list
  \<open>trades\<close> for the value \<open>last_time\<close> that \<open>load_state\<close> returned. The files the run
  leaves are those it started with, with the rows \<open>transform_trades\<close> gives for these
  trades (one per trade) written to the output file, and then the state file
  rewritten to hold \<open>m\<close>. This \<open>m\<close> is the greatest creation timestamp among the trades
  exported: one of them has it, and none has a later one. The value loaded at the
  start is an integer (or a JSON boolean, which Python compares as 0 or 1) strictly
  below \<open>m\<close>, so the checkpoint saved is not below the checkpoint loaded.
\<close>

theorem main_checkpoint_is_latest_exported:
  assumes run: "main L args xs fs = Some (fs', Exported)"
  shows "\<exists>k s last_time sent trades rows m.
           load_credentials fs = Inr (JStr k, JStr s)
           \<and> load_state L fs = Inr last_time
           \<and> fetch_trades_any L \<lparr>api_key = k, api_secret = s\<rparr> last_time xs
                 = Some (sent, Inr trades)
           \<and> trades \<noteq> []
           \<and> transform_trades L trades = Inr rows
           \<and> length rows = length trades
           \<and> fs' = save_state m (fs(output_filename args \<mapsto> Csv FIELDNAMES rows))
           \<and> fs' STATE_FILE = Some (Json (JObj [(''last_time'', JInt m)]))
           \<and> (output_filename args \<noteq> STATE_FILE \<longrightarrow>
                  fs' (output_filename args) = Some (Csv FIELDNAMES rows))
           \<and> (\<exists>tr \<in> set trades. ctime_of L tr = Inr m)
           \<and> (\<forall>tr \<in> set trades. \<exists>c. ctime_of L tr = Inr c \<and> c \<le> m)
           \<and> ((\<exists>t. last_time = JInt t \<and> t < m) \<or>
                (\<exists>b. last_time = JBool b \<and> (if b then 1 else 0) < m))"
proof -
  from main_Exported [OF run] obtain k s where
    cr: "load_credentials fs = Inr (JStr k, JStr s)"
    and body: "main_body L \<lparr>api_key = k, api_secret = s\<rparr> args xs fs = Some (fs', Exported)"
    by blast
  let ?self = "\<lparr>api_key = k, api_secret = s\<rparr>"
  from body obtain last_time where ld: "load_state L fs = Inr last_time"
    by (auto simp: main_body_def split: sum.splits)
  from body ld obtain sent trades where
    f: "fetch_trades_any L ?self last_time xs = Some (sent, Inr trades)"
    by (auto simp: main_body_def split: option.splits prod.splits sum.splits)
  from body ld f have ne: "trades \<noteq> []"
    by (auto simp: main_body_def split: if_splits)
  from body ld f ne obtain rows where tr: "transform_trades L trades = Inr rows"
    by (auto simp: main_body_def split: sum.splits)
  from tr have len: "length rows = length trades" by (rule transform_trades_length)
  from body ld f ne tr obtain m where lt: "latest_ctime L trades = Inr m"
    and fs': "fs' = save_state m (fs(output_filename args \<mapsto> Csv FIELDNAMES rows))"
    by (auto simp: main_body_def Let_def split: sum.splits)
  from fs' have saved: "fs' STATE_FILE = Some (Json (JObj [(''last_time'', JInt m)]))"
    by (simp add: save_state_def)
  from fs' have out: "output_filename args \<noteq> STATE_FILE \<longrightarrow>
                        fs' (output_filename args) = Some (Csv FIELDNAMES rows)"
    by (simp add: save_state_def)
  from latest_ctime_greatest [OF lt] have top: "\<exists>tr \<in> set trades. ctime_of L tr = Inr m"
    and ub: "\<forall>tr \<in> set trades. \<exists>c. ctime_of L tr = Inr c \<and> c \<le> m"
    by simp_all
  from f have "fetch_loop L ?self last_time [] 0 False [] xs = Some (sent, Inr trades)"
    by (simp add: fetch_trades_any_def)
  then have nw: "\<forall>tr \<in> set trades. newer_than L last_time tr" by (rule fetch_loop_newer) simp
  from top obtain tr where "tr \<in> set trades" "ctime_of L tr = Inr m" by blast
  with nw have "py_gt_int m last_time = Inr True" by (auto simp: newer_than_def)
  then have above: "(\<exists>t. last_time = JInt t \<and> t < m) \<or>
                    (\<exists>b. last_time = JBool b \<and> (if b then 1 else 0) < m)"
    by (cases last_time) (simp_all add: py_gt_int_def)
  from cr ld f ne tr len fs' saved out top ub above show ?thesis by blast
qed

theorem main_checkpoint_is_latest_exported_witness:
  "checkpoint_after
        (main example_lib example_args [example_exchange (page_reply example_page)]
           (files_with_state 1700000000000))
       = Some (Some (Json (JObj [(''last_time'', JInt 1700000086400)])), Exported)
   \<and> file_after ''out.csv''
        (main example_lib example_args [example_exchange (page_reply example_page)]
           (files_with_state 1700000000000))
       = Some (Some (Csv FIELDNAMES example_rows))
   \<and> (\<exists>fs'. main example_lib example_args [example_exchange (page_reply example_page)]
               (files_with_state 1700000000000) = Some (fs', Exported)
        \<and> (\<exists>sent trades m.
             load_credentials (files_with_state 1700000000000) = Inr (JStr ''K'', JStr ''S'')
             \<and> load_state example_lib (files_with_state 1700000000000) = Inr (JInt 1700000000000)
             \<and> fetch_trades_any example_lib example_client (JInt 1700000000000)
                   [example_exchange (page_reply example_page)] = Some (sent, Inr trades)
             \<and> trades \<noteq> []
             \<and> transform_trades example_lib trades = Inr example_rows
             \<and> length example_rows = length trades
             \<and> fs' = save_state m ((files_with_state 1700000000000)
                                       (''out.csv'' \<mapsto> Csv FIELDNAMES example_rows))
             \<and> fs' STATE_FILE = Some (Json (JObj [(''last_time'', JInt m)]))
             \<and> fs' ''out.csv'' = Some (Csv FIELDNAMES example_rows)
             \<and> (\<exists>tr \<in> set trades. ctime_of example_lib tr = Inr m)
             \<and> (\<forall>tr \<in> set trades. \<exists>c. ctime_of example_lib tr = Inr c \<and> c \<le> m)
             \<and> 1700000000000 < m))"
proof -
  let ?run = "main example_lib example_args [example_exchange (page_reply example_page)]
                (files_with_state 1700000000000)"
  have c: "checkpoint_after ?run
             = Some (Some (Json (JObj [(''last_time'', JInt 1700000086400)])), Exported)"
    by code_simp
  have o: "file_after ''out.csv'' ?run = Some (Some (Csv FIELDNAMES example_rows))"
    by code_simp
  have cr: "load_credentials (files_with_state 1700000000000) = Inr (JStr ''K'', JStr ''S'')"
    by code_simp
  have ld: "load_state example_lib (files_with_state 1700000000000) = Inr (JInt 1700000000000)"
    by code_simp
  have name: "output_filename example_args = ''out.csv''" by code_simp
  have differ: "''out.csv'' \<noteq> STATE_FILE" by code_simp
  from c obtain fs' where r: "?run = Some (fs', Exported)"
    by (auto simp: checkpoint_after_def)
  from main_checkpoint_is_latest_exported [OF r] obtain k s last_time sent trades rows m where
    1: "load_credentials (files_with_state 1700000000000) = Inr (JStr k, JStr s)"
    and 2: "load_state example_lib (files_with_state 1700000000000) = Inr last_time"
    and 3: "fetch_trades_any example_lib \<lparr>api_key = k, api_secret = s\<rparr> last_time
              [example_exchange (page_reply example_page)] = Some (sent, Inr trades)"
    and 4: "trades \<noteq> []"
    and 5: "transform_trades example_lib trades = Inr rows"
    and 6: "length rows = length trades"
    and 7: "fs' = save_state m ((files_with_state 1700000000000)
                                  (output_filename example_args \<mapsto> Csv FIELDNAMES rows))"
    and 8: "fs' STATE_FILE = Some (Json (JObj [(''last_time'', JInt m)]))"
    and 9: "output_filename example_args \<noteq> STATE_FILE \<longrightarrow>
              fs' (output_filename example_args) = Some (Csv FIELDNAMES rows)"
    and 10: "\<exists>tr \<in> set trades. ctime_of example_lib tr = Inr m"
    and 11: "\<forall>tr \<in> set trades. \<exists>c. ctime_of example_lib tr = Inr c \<and> c \<le> m"
    and 12: "(\<exists>t. last_time = JInt t \<and> t < m) \<or>
             (\<exists>b. last_time = JBool b \<and> (if b then 1 else 0) < m)"
    by blast
  from 1 cr have ks: "k = ''K''" "s = ''S''" by simp_all
  from 2 ld have lt: "last_time = JInt 1700000000000" by simp
  from 9 name differ have out: "fs' ''out.csv'' = Some (Csv FIELDNAMES rows)" by simp
  from o r out have rows: "rows = example_rows" by (simp add: file_after_def)
  from 12 lt have above: "1700000000000 < m" by simp
  from ks have self: "\<lparr>api_key = k, api_secret = s\<rparr> = example_client"
    by (simp add: example_client_def)
  from c o r cr ld 3 [unfolded self lt] 4 5 [unfolded rows] 6 [unfolded rows]
    7 [unfolded name rows] 8 out [unfolded rows] 10 11 above
  show ?thesis by blast
qed

end
